theory Spec2Isabelle
  imports Complex_Main
begin

section \<open>Data model of the agent framework\<close>

text \<open>
  The agent framework and the orchestrator are the Python of
  \<^verbatim>\<open>investai-product-spec.md\<close>, sections 3.2.1, 3.2.2 and 4.2.2.

  A payload (\<^verbatim>\<open>Dict[str, Any]\<close>) is an association list from keys to Python values.
  The orchestrator stores \<^verbatim>\<open>AgentResult\<close> objects inside a payload (the list
  \<^verbatim>\<open>analysis_results\<close> handed to the risk agent), so the values and the results are
  one mutually recursive datatype. The fields of \<^verbatim>\<open>AgentResult\<close> are the selectors;
  its \<^verbatim>\<open>task_id\<close> is \<open>result_task_id\<close>, since the record of \<^verbatim>\<open>AgentTask\<close> has a
  field of the same name.
\<close>

datatype pyval =
    PNone
  | PBool bool
  | PNum rat
  | PStr string
  | PList "pyval list"
  | PDict "(string \<times> pyval) list"
  | PObj AgentResult
and AgentResult =
  AgentResult (result_task_id: string) (success: bool) (data: "(string \<times> pyval) list")
              (error_msg: "string option") (execution_time: rat)

type_synonym dict = "(string \<times> pyval) list"

record AgentTask =
  task_id :: string
  task_type :: string
  input_data :: dict
  priority :: int
  timeout :: int

text \<open>An exception that a coroutine raises: its class name and its message.\<close>

datatype py_exception = PyException (exc_class: string) (exc_msg: string)

text \<open>\<^verbatim>\<open>d.get(k)\<close>, \<^verbatim>\<open>d.get(k, default)\<close> and \<^verbatim>\<open>d[k] = v\<close> on a dictionary.\<close>

definition dict_get :: "dict \<Rightarrow> string \<Rightarrow> pyval" where
  "dict_get d k = (case map_of d k of None \<Rightarrow> PNone | Some v \<Rightarrow> v)"

definition dict_get_default :: "dict \<Rightarrow> string \<Rightarrow> pyval \<Rightarrow> pyval" where
  "dict_get_default d k dflt = (case map_of d k of None \<Rightarrow> dflt | Some v \<Rightarrow> v)"

fun dict_set :: "string \<Rightarrow> pyval \<Rightarrow> dict \<Rightarrow> dict" where
  "dict_set k v [] = [(k, v)]"
| "dict_set k v ((k', v') # d) = (if k' = k then (k, v) # d else (k', v') # dict_set k v d)"

text \<open>
  What a \<^verbatim>\<open>for\<close> loop iterates over: the elements of a list, the characters of a
  string, the keys of a dictionary; any other value raises \<^verbatim>\<open>TypeError\<close>.
\<close>

fun py_iter :: "pyval \<Rightarrow> py_exception + pyval list" where
  "py_iter (PList xs) = Inr xs"
| "py_iter (PStr s) = Inr (map (\<lambda>ch. PStr [ch]) s)"
| "py_iter (PDict d) = Inr (map (\<lambda>kv. PStr (fst kv)) d)"
| "py_iter v = Inl (PyException ''TypeError'' ''object is not iterable'')"

section \<open>DataCollectionAgent\<close>

text \<open>
  The three fetch methods of the agent are not part of the source; they are parameters.
  Each one is awaited: it takes the stock code and the wall clock (seconds) at the moment
  it is called, and gives either the exception it raises or the data it returns, together
  with the wall clock at the moment it is done.
\<close>

type_synonym clock = rat

record fetchers =
  fetch_price_data :: "pyval \<Rightarrow> clock \<Rightarrow> (py_exception + pyval) \<times> clock"
  fetch_financial_data :: "pyval \<Rightarrow> clock \<Rightarrow> (py_exception + pyval) \<times> clock"
  fetch_news_data :: "pyval \<Rightarrow> clock \<Rightarrow> (py_exception + pyval) \<times> clock"

text \<open>
  The loop \<^verbatim>\<open>for data_type in data_types\<close>, with \<^verbatim>\<open>result_data\<close> and the clock
  passed along. An exception of a fetch method ends the loop: nothing catches it.
\<close>

fun collect :: "fetchers \<Rightarrow> pyval \<Rightarrow> pyval list \<Rightarrow> dict \<Rightarrow> clock
    \<Rightarrow> (py_exception + dict) \<times> clock" where
  "collect F stock_code [] result_data c = (Inr result_data, c)"
| "collect F stock_code (data_type # rest) result_data c =
     (if data_type = PStr ''price'' then
        (case fetch_price_data F stock_code c of
           (Inl e, c') \<Rightarrow> (Inl e, c')
         | (Inr v, c') \<Rightarrow> collect F stock_code rest (dict_set ''price_data'' v result_data) c')
      else if data_type = PStr ''financial'' then
        (case fetch_financial_data F stock_code c of
           (Inl e, c') \<Rightarrow> (Inl e, c')
         | (Inr v, c') \<Rightarrow> collect F stock_code rest (dict_set ''financial_data'' v result_data) c')
      else if data_type = PStr ''news'' then
        (case fetch_news_data F stock_code c of
           (Inl e, c') \<Rightarrow> (Inl e, c')
         | (Inr v, c') \<Rightarrow> collect F stock_code rest (dict_set ''news_data'' v result_data) c')
      else collect F stock_code rest result_data c)"

text \<open>
  \<^verbatim>\<open>DataCollectionAgent.execute\<close>. The result is built with \<^verbatim>\<open>task_id\<close>,
  \<^verbatim>\<open>success=True\<close> and \<^verbatim>\<open>data\<close>; \<^verbatim>\<open>error_msg\<close> and \<^verbatim>\<open>execution_time\<close> keep
  the defaults of the dataclass, \<^verbatim>\<open>None\<close> and \<^verbatim>\<open>0\<close>.
\<close>

definition DataCollectionAgent_execute :: "fetchers \<Rightarrow> AgentTask \<Rightarrow> clock
    \<Rightarrow> (py_exception + AgentResult) \<times> clock" where
  "DataCollectionAgent_execute F task c =
     (let stock_code = dict_get (input_data task) ''stock_code'';
          data_types = dict_get_default (input_data task) ''data_types''
                         (PList [PStr ''price'', PStr ''financial'', PStr ''news''])
      in case py_iter data_types of
           Inl e \<Rightarrow> (Inl e, c)
         | Inr items \<Rightarrow>
             (case collect F stock_code items [] c of
                (Inl e, c') \<Rightarrow> (Inl e, c')
              | (Inr result_data, c') \<Rightarrow>
                  (Inr (AgentResult (task_id task) True result_data None 0), c')))"

section \<open>AnalysisOrchestrator\<close>

text \<open>
  The classes of the other agents are not all part of the source, and the orchestrator calls
  each one only through \<^verbatim>\<open>execute\<close>: the dictionary \<^verbatim>\<open>self.agents\<close> is a record of
  six \<^verbatim>\<open>execute\<close> coroutines. Awaiting one gives the exception it raises or the
  \<^verbatim>\<open>AgentResult\<close> it returns.

  The risk and the strategy agent are handed objects that the orchestrator reads again after
  they ran: the list \<^verbatim>\<open>analysis_results\<close> (both agents; the strategy task and the
  returned dictionary are built from it), the dictionary \<^verbatim>\<open>user_profile\<close> (the risk
  agent; the strategy task is built from it) and the dictionary \<^verbatim>\<open>risk_result.data\<close>
  (the strategy agent; the returned dictionary holds it). Python hands them over by
  reference, so the agent may change them. The \<^verbatim>\<open>execute\<close> of these two agents
  therefore gives, with its outcome, the contents these objects have when the coroutine is
  done: the list and the profile for the risk agent, the list and the risk data for the
  strategy agent. The data collector and the three analysis agents are handed nothing that
  the orchestrator reads again.
\<close>

type_synonym agent = "AgentTask \<Rightarrow> py_exception + AgentResult"

type_synonym risk_agent = "AgentTask \<Rightarrow> (py_exception + AgentResult) \<times> pyval list \<times> pyval"

type_synonym strategy_agent = "AgentTask \<Rightarrow> (py_exception + AgentResult) \<times> pyval list \<times> dict"

record agents =
  data_collector :: agent
  fundamental :: agent
  technical :: agent
  sentiment :: agent
  risk :: risk_agent
  strategy :: strategy_agent

text \<open>
  What a run does is observed in a log: a task is dispatched when its coroutine is handed
  to the event loop, and settled when the coroutine has returned or raised.
\<close>

datatype event = Dispatched AgentTask | Settled AgentTask

text \<open>\<^verbatim>\<open>await agent.execute(task)\<close>: the caller is suspended until the task has settled.\<close>

definition await_execute :: "(AgentTask \<Rightarrow> 'a) \<Rightarrow> AgentTask \<Rightarrow> event list \<times> 'a" where
  "await_execute ag task = ([Dispatched task, Settled task], ag task)"

text \<open>
  \<^verbatim>\<open>await asyncio.gather(*coros)\<close>. All coroutines are dispatched, in the order of the
  arguments. They settle in an order the event loop decides: \<open>rank i\<close> is the position in
  time at which coroutine \<open>i\<close> settles (equal ranks settle in the order of the arguments).
  The first coroutine that raises ends the wait with its exception; if none raises, the
  results come back in the order of the arguments.
\<close>

fun settle :: "(AgentTask \<times> (py_exception + AgentResult)) list \<Rightarrow> event list \<times> py_exception option" where
  "settle [] = ([], None)"
| "settle ((t, Inl e) # rest) = ([Settled t], Some e)"
| "settle ((t, Inr r) # rest) = (case settle rest of (evs, raised) \<Rightarrow> (Settled t # evs, raised))"

fun returned :: "(AgentTask \<times> (py_exception + AgentResult)) list \<Rightarrow> AgentResult list" where
  "returned [] = []"
| "returned ((t, Inl e) # rest) = returned rest"
| "returned ((t, Inr r) # rest) = r # returned rest"

definition gather :: "(nat \<Rightarrow> nat) \<Rightarrow> (agent \<times> AgentTask) list
    \<Rightarrow> event list \<times> (py_exception + AgentResult list)" where
  "gather rank coros =
     (let outcomes = map (\<lambda>(ag, t). (t, ag t)) coros;
          completion = map snd (sort_key (\<lambda>(i, x). rank i) (enumerate 0 outcomes))
      in case settle completion of
           (evs, raised) \<Rightarrow>
             (map (\<lambda>(ag, t). Dispatched t) coros @ evs,
              case raised of Some e \<Rightarrow> Inl e | None \<Rightarrow> Inr (returned outcomes)))"

text \<open>
  The six tasks that \<^verbatim>\<open>analyze_stock\<close> builds. The risk task is built from the list
  that gather returned; the strategy task is built after the risk agent ran, from what the
  list and the profile hold then.
\<close>

definition data_task :: "string \<Rightarrow> AgentTask" where
  "data_task stock_code =
     \<lparr>task_id = ''data_'' @ stock_code, task_type = ''data_collection'',
      input_data = [(''stock_code'', PStr stock_code)], priority = 1, timeout = 300\<rparr>"

definition fundamental_task :: "string \<Rightarrow> AgentResult \<Rightarrow> AgentTask" where
  "fundamental_task stock_code data_result =
     \<lparr>task_id = ''fundamental_'' @ stock_code, task_type = ''fundamental_analysis'',
      input_data = data data_result, priority = 1, timeout = 300\<rparr>"

definition technical_task :: "string \<Rightarrow> AgentResult \<Rightarrow> AgentTask" where
  "technical_task stock_code data_result =
     \<lparr>task_id = ''technical_'' @ stock_code, task_type = ''technical_analysis'',
      input_data = data data_result, priority = 1, timeout = 300\<rparr>"

definition sentiment_task :: "string \<Rightarrow> AgentResult \<Rightarrow> AgentTask" where
  "sentiment_task stock_code data_result =
     \<lparr>task_id = ''sentiment_'' @ stock_code, task_type = ''sentiment_analysis'',
      input_data = data data_result, priority = 1, timeout = 300\<rparr>"

definition risk_task :: "string \<Rightarrow> AgentResult list \<Rightarrow> pyval \<Rightarrow> AgentTask" where
  "risk_task stock_code analysis_results user_profile =
     \<lparr>task_id = ''risk_'' @ stock_code, task_type = ''risk_assessment'',
      input_data = [(''analysis_results'', PList (map PObj analysis_results)),
                    (''user_profile'', user_profile)],
      priority = 1, timeout = 300\<rparr>"

definition strategy_task :: "string \<Rightarrow> pyval list \<Rightarrow> AgentResult \<Rightarrow> pyval \<Rightarrow> AgentTask" where
  "strategy_task stock_code analysis_results risk_result user_profile =
     \<lparr>task_id = ''strategy_'' @ stock_code, task_type = ''strategy_generation'',
      input_data = [(''analysis_results'', PList analysis_results),
                    (''risk_assessment'', PDict (data risk_result)),
                    (''user_profile'', user_profile)],
      priority = 1, timeout = 300\<rparr>"

text \<open>
  \<^verbatim>\<open>analysis_results[i].data\<close> on the list as it is when the returned dictionary is
  built: \<^verbatim>\<open>IndexError\<close> when the list is too short, \<^verbatim>\<open>AttributeError\<close> when the
  element is not a result object.
\<close>

definition result_data_at :: "pyval list \<Rightarrow> nat \<Rightarrow> py_exception + dict" where
  "result_data_at analysis_results i =
     (if i < length analysis_results then
        (case analysis_results ! i of
           PObj r \<Rightarrow> Inr (data r)
         | _ \<Rightarrow> Inl (PyException ''AttributeError'' ''object has no attribute data''))
      else Inl (PyException ''IndexError'' ''list index out of range''))"

text \<open>
  The dictionary that \<^verbatim>\<open>analyze_stock\<close> returns, built from what the list and the risk
  data hold after the strategy agent ran; \<open>now\<close> is what
  \<^verbatim>\<open>datetime.now().isoformat()\<close> gives at that moment. The entries are evaluated in
  the order in which they are written.
\<close>

definition final_record :: "string \<Rightarrow> pyval list \<Rightarrow> dict \<Rightarrow> AgentResult \<Rightarrow> string
    \<Rightarrow> py_exception + dict" where
  "final_record stock_code analysis_results risk_data strategy_result now =
     (case result_data_at analysis_results 0 of
        Inl e \<Rightarrow> Inl e
      | Inr data0 \<Rightarrow>
     (case result_data_at analysis_results 1 of
        Inl e \<Rightarrow> Inl e
      | Inr data1 \<Rightarrow>
     (case result_data_at analysis_results 2 of
        Inl e \<Rightarrow> Inl e
      | Inr data2 \<Rightarrow>
          Inr [(''stock_code'', PStr stock_code),
               (''analysis'', PDict [(''fundamental'', PDict data0),
                                     (''technical'', PDict data1),
                                     (''sentiment'', PDict data2)]),
               (''risk_assessment'', PDict risk_data),
               (''investment_strategy'', PDict (data strategy_result)),
               (''timestamp'', PStr now)])))"

text \<open>
  The list \<^verbatim>\<open>analysis_tasks\<close>: the three \<^verbatim>\<open>execute\<close> coroutines, appended in the
  order fundamental, technical, sentiment, each on its own task.
\<close>

definition analysis_tasks :: "agents \<Rightarrow> string \<Rightarrow> AgentResult \<Rightarrow> (agent \<times> AgentTask) list" where
  "analysis_tasks A stock_code data_result =
     [(fundamental A, fundamental_task stock_code data_result),
      (technical A, technical_task stock_code data_result),
      (sentiment A, sentiment_task stock_code data_result)]"

text \<open>
  \<^verbatim>\<open>AnalysisOrchestrator.analyze_stock\<close>. Nothing in it catches an exception and nothing
  reads the \<^verbatim>\<open>success\<close> flag of a result: an exception of an awaited agent leaves the
  method at that point, and a returned result is used whatever its flag says.
\<close>

definition analyze_stock :: "agents \<Rightarrow> (nat \<Rightarrow> nat) \<Rightarrow> string \<Rightarrow> string \<Rightarrow> pyval
    \<Rightarrow> event list \<times> (py_exception + dict)" where
  "analyze_stock A rank now stock_code user_profile =
     (case await_execute (data_collector A) (data_task stock_code) of
        (log1, Inl e) \<Rightarrow> (log1, Inl e)
      | (log1, Inr data_result) \<Rightarrow>
     (case gather rank (analysis_tasks A stock_code data_result) of
        (log2, Inl e) \<Rightarrow> (log1 @ log2, Inl e)
      | (log2, Inr analysis_results) \<Rightarrow>
     (case await_execute (risk A) (risk_task stock_code analysis_results user_profile) of
        (log3, Inl e, results_left, profile_left) \<Rightarrow> (log1 @ log2 @ log3, Inl e)
      | (log3, Inr risk_result, results_left, profile_left) \<Rightarrow>
     (case await_execute (strategy A)
             (strategy_task stock_code results_left risk_result profile_left) of
        (log4, Inl e, results_last, risk_data_last) \<Rightarrow> (log1 @ log2 @ log3 @ log4, Inl e)
      | (log4, Inr strategy_result, results_last, risk_data_last) \<Rightarrow>
          (log1 @ log2 @ log3 @ log4,
           final_record stock_code results_last risk_data_last strategy_result now)))))"

text \<open>The request type of the web client, \<^verbatim>\<open>StockAnalysisRequest\<close>.\<close>

record StockAnalysisRequest =
  stock_code :: string
  analysis_types :: "string list"

section \<open>Reading a task, a log and a result\<close>

text \<open>
  What the payload of a risk or strategy task holds when the task is dispatched: the list,
  the profile and the risk data. An agent that returns these as the contents it leaves
  behind has changed nothing.
\<close>

definition handed_results :: "AgentTask \<Rightarrow> pyval list" where
  "handed_results t =
     (case dict_get (input_data t) ''analysis_results'' of PList xs \<Rightarrow> xs | _ \<Rightarrow> [])"

definition handed_profile :: "AgentTask \<Rightarrow> pyval" where
  "handed_profile t = dict_get (input_data t) ''user_profile''"

definition handed_risk_data :: "AgentTask \<Rightarrow> dict" where
  "handed_risk_data t =
     (case dict_get (input_data t) ''risk_assessment'' of PDict d \<Rightarrow> d | _ \<Rightarrow> [])"

fun dispatched_types :: "event list \<Rightarrow> string list" where
  "dispatched_types [] = []"
| "dispatched_types (Dispatched t # evs) = task_type t # dispatched_types evs"
| "dispatched_types (Settled t # evs) = dispatched_types evs"

fun is_dispatch_of :: "string \<Rightarrow> event \<Rightarrow> bool" where
  "is_dispatch_of k (Dispatched t) = (task_type t = k)"
| "is_dispatch_of k (Settled t) = False"

fun is_settle_of :: "string \<Rightarrow> event \<Rightarrow> bool" where
  "is_settle_of k (Settled t) = (task_type t = k)"
| "is_settle_of k (Dispatched t) = False"

text \<open>
  \<open>precedes P Q log\<close>: no event with \<open>Q\<close> occurs in the log before the first event with
  \<open>P\<close>. Every \<open>Q\<close> event is then strictly later than some \<open>P\<close> event.
\<close>

fun precedes :: "('a \<Rightarrow> bool) \<Rightarrow> ('a \<Rightarrow> bool) \<Rightarrow> 'a list \<Rightarrow> bool" where
  "precedes P Q [] = True"
| "precedes P Q (x # xs) = (if P x then True else if Q x then False else precedes P Q xs)"

text \<open>The entry of a dictionary value under a key; \<open>PNone\<close> when there is none.\<close>

fun field :: "string \<Rightarrow> pyval \<Rightarrow> pyval" where
  "field k (PDict d) = dict_get d k"
| "field k v = PNone"

text \<open>What a run hands to its caller, as a value: the returned dictionary, if it returned.\<close>

fun returned_record :: "py_exception + dict \<Rightarrow> pyval" where
  "returned_record (Inr rec) = PDict rec"
| "returned_record (Inl e) = PNone"

text \<open>An outcome is a failure when the agent raised or returned \<^verbatim>\<open>success=False\<close>.\<close>

fun task_failed :: "py_exception + AgentResult \<Rightarrow> bool" where
  "task_failed (Inl e) = True"
| "task_failed (Inr r) = (\<not> success r)"

text \<open>
  How an awaited \<^verbatim>\<open>execute\<close> ended, without the result: the exception it raised, if
  any, and the clock.
\<close>

fun raised :: "(py_exception + AgentResult) \<times> clock \<Rightarrow> py_exception option \<times> clock" where
  "raised (Inl e, c) = (Some e, c)"
| "raised (Inr r, c) = (None, c)"

text \<open>The task with its \<^verbatim>\<open>data_types\<close> entry set to a list.\<close>

definition with_data_types :: "AgentTask \<Rightarrow> pyval list \<Rightarrow> AgentTask" where
  "with_data_types task items =
     task\<lparr>input_data := dict_set ''data_types'' (PList items) (input_data task)\<rparr>"

section \<open>Sample data sources\<close>

text \<open>
  Data sources for the runs that are evaluated below: one where every provider answers
  (prices after 2 seconds, filings after 1, news after 3), one where the filings provider
  fails after 30 seconds.
\<close>

definition sample_fetchers :: fetchers where
  "sample_fetchers =
     \<lparr>fetch_price_data = (\<lambda>code c. (Inr (PList [PNum 12, PNum 13]), c + 2)),
      fetch_financial_data = (\<lambda>code c. (Inr (PDict [(''roe'', PNum 15)]), c + 1)),
      fetch_news_data = (\<lambda>code c. (Inr (PList [PStr ''earnings'']), c + 3))\<rparr>"

definition failing_fetchers :: fetchers where
  "failing_fetchers =
     \<lparr>fetch_price_data = (\<lambda>code c. (Inr (PList [PNum 12, PNum 13]), c + 2)),
      fetch_financial_data =
        (\<lambda>code c. (Inl (PyException ''ConnectionError'' ''filings provider unreachable''), c + 30)),
      fetch_news_data = (\<lambda>code c. (Inr (PList [PStr ''earnings'']), c + 3))\<rparr>"

text \<open>
  Agents for the runs that are evaluated below. In \<open>sample_agents\<close> the data collector is
  \<^verbatim>\<open>DataCollectionAgent\<close> on the answering data sources, started at second 100, every
  other agent returns a result with \<^verbatim>\<open>success=True\<close>, and the risk and strategy agents
  change nothing of what they are handed. The variants change one or three agents.
\<close>

definition sample_agents :: agents where
  "sample_agents =
     \<lparr>data_collector = (\<lambda>t. fst (DataCollectionAgent_execute sample_fetchers t 100)),
      fundamental = (\<lambda>t. Inr (AgentResult (task_id t) True [(''score'', PNum 80)] None 0)),
      technical = (\<lambda>t. Inr (AgentResult (task_id t) True [(''score'', PNum 60)] None 0)),
      sentiment = (\<lambda>t. Inr (AgentResult (task_id t) True [(''score'', PNum 70)] None 0)),
      risk = (\<lambda>t. (Inr (AgentResult (task_id t) True [(''risk_level'', PStr ''medium'')] None 0),
                   handed_results t, handed_profile t)),
      strategy = (\<lambda>t. (Inr (AgentResult (task_id t) True
                     [(''action'', PStr ''buy''), (''confidence'', PNum 75),
                      (''target_price'', PNum 15), (''stop_loss'', PNum 11)] None 0),
                   handed_results t, handed_risk_data t))\<rparr>"

definition data_raises_agents :: agents where
  "data_raises_agents =
     sample_agents\<lparr>data_collector := (\<lambda>t. fst (DataCollectionAgent_execute failing_fetchers t 100))\<rparr>"

definition fundamental_raises_agents :: agents where
  "fundamental_raises_agents =
     sample_agents\<lparr>fundamental := (\<lambda>t. Inl (PyException ''TimeoutError'' ''model call timed out''))\<rparr>"

definition analyses_raise_agents :: agents where
  "analyses_raise_agents =
     sample_agents
       \<lparr>fundamental := (\<lambda>t. Inl (PyException ''TimeoutError'' ''model call timed out'')),
        technical := (\<lambda>t. Inl (PyException ''ValueError'' ''no price history'')),
        sentiment := (\<lambda>t. Inl (PyException ''ConnectionError'' ''news feed unreachable''))\<rparr>"

definition sentiment_flagged_agents :: agents where
  "sentiment_flagged_agents =
     sample_agents\<lparr>sentiment :=
       (\<lambda>t. Inr (AgentResult (task_id t) False [] (Some ''news feed timed out'') 0))\<rparr>"


text \<open>A request of the web client that asks for the fundamental analysis only.\<close>

definition fundamental_only_request :: StockAnalysisRequest where
  "fundamental_only_request = \<lparr>stock_code = ''000001'', analysis_types = [''fundamental'']\<rparr>"

text \<open>An event loop in which the coroutines of a gather settle in reverse order.\<close>

definition reverse_rank :: "nat \<Rightarrow> nat" where
  "reverse_rank i = 2 - i"

text \<open>What the sample data collector returns, a user profile, and two clock readings.\<close>

definition sample_data_result :: AgentResult where
  "sample_data_result =
     AgentResult ''data_000001'' True
       [(''price_data'', PList [PNum 12, PNum 13]),
        (''financial_data'', PDict [(''roe'', PNum 15)]),
        (''news_data'', PList [PStr ''earnings''])] None 0"

definition sample_profile :: pyval where
  "sample_profile = PDict [(''risk_tolerance'', PStr ''moderate'')]"

definition sample_now :: string where
  "sample_now = ''2024-01-15T10:30:00''"

definition later_now :: string where
  "later_now = ''2024-01-15T10:31:00''"

section \<open>Properties of DataCollectionAgent.execute\<close>

lemma collect_returns:
  assumes "\<forall>v t. \<not> isl (fst (fetch_price_data F v t))"
      and "\<forall>v t. \<not> isl (fst (fetch_financial_data F v t))"
      and "\<forall>v t. \<not> isl (fst (fetch_news_data F v t))"
  shows "\<not> isl (fst (collect F sc items acc c))"
proof (induction items arbitrary: acc c)
  case Nil
  show ?case by simp
next
  case (Cons x xs)
  have p: "\<And>e c'. fetch_price_data F sc c \<noteq> (Inl e, c')"
    using assms(1) by (metis fst_conv isl_def)
  have f: "\<And>e c'. fetch_financial_data F sc c \<noteq> (Inl e, c')"
    using assms(2) by (metis fst_conv isl_def)
  have n: "\<And>e c'. fetch_news_data F sc c \<noteq> (Inl e, c')"
    using assms(3) by (metis fst_conv isl_def)
  show ?case
    using Cons.IH p f n by (simp split: prod.splits sum.splits)
qed

lemma collect_raises:
  "collect F sc items acc c = (Inl e, c') \<Longrightarrow>
     (\<exists>t. fetch_price_data F sc t = (Inl e, c'))
   \<or> (\<exists>t. fetch_financial_data F sc t = (Inl e, c'))
   \<or> (\<exists>t. fetch_news_data F sc t = (Inl e, c'))"
proof (induction items arbitrary: acc c)
  case Nil
  then show ?case by simp
next
  case (Cons x xs)
  show ?case
  proof (cases "x = PStr ''price''")
    case True
    show ?thesis
    proof (cases "fetch_price_data F sc c")
      case (Pair out c1)
      with True Cons show ?thesis by (cases out) auto
    qed
  next
    case np: False
    show ?thesis
    proof (cases "x = PStr ''financial''")
      case True
      show ?thesis
      proof (cases "fetch_financial_data F sc c")
        case (Pair out c1)
        with True np Cons show ?thesis by (cases out) auto
      qed
    next
      case nf: False
      show ?thesis
      proof (cases "x = PStr ''news''")
        case True
        show ?thesis
        proof (cases "fetch_news_data F sc c")
          case (Pair out c1)
          with True np nf Cons show ?thesis by (cases out) auto
        qed
      next
        case False
        with np nf Cons show ?thesis by simp
      qed
    qed
  qed
qed

lemma map_of_dict_set:
  "map_of (dict_set k v d) k' = (if k' = k then Some v else map_of d k')"
  by (induction d) auto

lemma with_data_types_reads:
  "dict_get_default (input_data (with_data_types task items)) ''data_types'' dflt = PList items"
  "dict_get (input_data (with_data_types task items)) ''stock_code''
     = dict_get (input_data task) ''stock_code''"
  "task_id (with_data_types task items) = task_id task"
  by (simp_all add: with_data_types_def dict_get_default_def dict_get_def map_of_dict_set)

text \<open>Whether and how the loop raises does not depend on what was collected before.\<close>

lemma collect_raised_any_acc:
  "(case collect F sc items acc c of (Inl e, c') \<Rightarrow> (Some e, c') | (Inr d, c') \<Rightarrow> (None, c'))
   = (case collect F sc items acc' c of (Inl e, c') \<Rightarrow> (Some e, c') | (Inr d, c') \<Rightarrow> (None, c'))"
proof (induction items arbitrary: acc acc' c)
  case Nil
  show ?case by simp
next
  case (Cons x xs)
  show ?case
  proof (cases "x = PStr ''price''")
    case True
    then show ?thesis
      using Cons.IH by (cases "fetch_price_data F sc c") (auto split: sum.splits)
  next
    case np: False
    show ?thesis
    proof (cases "x = PStr ''financial''")
      case True
      then show ?thesis
        using np Cons.IH by (cases "fetch_financial_data F sc c") (auto split: sum.splits)
    next
      case nf: False
      show ?thesis
      proof (cases "x = PStr ''news''")
        case True
        then show ?thesis
          using np nf Cons.IH by (cases "fetch_news_data F sc c") (auto split: sum.splits)
      next
        case False
        with np nf Cons.IH show ?thesis by simp
      qed
    qed
  qed
qed

lemma execute_raised_collect:
  assumes "py_iter (dict_get_default (input_data task) ''data_types''
             (PList [PStr ''price'', PStr ''financial'', PStr ''news''])) = Inr items"
  shows "raised (DataCollectionAgent_execute F task c)
       = (case collect F (dict_get (input_data task) ''stock_code'') items acc c of
            (Inl e, c') \<Rightarrow> (Some e, c') | (Inr d, c') \<Rightarrow> (None, c'))"
proof -
  have "raised (DataCollectionAgent_execute F task c)
       = (case collect F (dict_get (input_data task) ''stock_code'') items [] c of
            (Inl e, c') \<Rightarrow> (Some e, c') | (Inr d, c') \<Rightarrow> (None, c'))"
    using assms by (simp add: DataCollectionAgent_execute_def split: prod.splits sum.splits)
  then show ?thesis
    by (simp only: collect_raised_any_acc[of F _ items "[]" c acc])
qed

lemma execute_raised_rest:
  "raised (DataCollectionAgent_execute F (with_data_types task rest) c)
     = (case collect F (dict_get (input_data task) ''stock_code'') rest acc c of
            (Inl e, c') \<Rightarrow> (Some e, c') | (Inr d, c') \<Rightarrow> (None, c'))"
  using execute_raised_collect[of "with_data_types task rest" rest F c acc]
  by (simp add: with_data_types_reads)

lemma execute_result_fields:
  "DataCollectionAgent_execute F task c = (Inr r, c') \<Longrightarrow>
     r = AgentResult (task_id task) True (data r) None 0"
  by (auto simp: DataCollectionAgent_execute_def Let_def split: sum.splits prod.splits)

text \<open>
  Claim C9. Whatever the task and whatever the data sources do,
  \<^verbatim>\<open>DataCollectionAgent.execute\<close> never hands back a result with \<^verbatim>\<open>success = false\<close>:
  every result it returns has \<^verbatim>\<open>success = true\<close>. It does return one whenever the
  fetch methods return and \<^verbatim>\<open>data_types\<close> can be iterated.
\<close>

theorem DataCollectionAgent_success_unconditional:
  "(\<forall>r c'. DataCollectionAgent_execute F task c = (Inr r, c') \<longrightarrow> success r)
   \<and> ((\<forall>v t. \<not> isl (fst (fetch_price_data F v t)))
        \<and> (\<forall>v t. \<not> isl (fst (fetch_financial_data F v t)))
        \<and> (\<forall>v t. \<not> isl (fst (fetch_news_data F v t)))
        \<and> \<not> isl (py_iter (dict_get_default (input_data task) ''data_types''
                      (PList [PStr ''price'', PStr ''financial'', PStr ''news''])))
      \<longrightarrow> (\<exists>r c'. DataCollectionAgent_execute F task c = (Inr r, c') \<and> success r))"
proof (intro conjI allI impI)
  fix r c'
  assume "DataCollectionAgent_execute F task c = (Inr r, c')"
  from execute_result_fields[OF this] show "success r"
    by (metis AgentResult.sel(2))
next
  assume h: "(\<forall>v t. \<not> isl (fst (fetch_price_data F v t)))
        \<and> (\<forall>v t. \<not> isl (fst (fetch_financial_data F v t)))
        \<and> (\<forall>v t. \<not> isl (fst (fetch_news_data F v t)))
        \<and> \<not> isl (py_iter (dict_get_default (input_data task) ''data_types''
                      (PList [PStr ''price'', PStr ''financial'', PStr ''news''])))"
  then obtain items where it: "py_iter (dict_get_default (input_data task) ''data_types''
                      (PList [PStr ''price'', PStr ''financial'', PStr ''news''])) = Inr items"
    by (metis isl_def sum.exhaust)
  from h have "\<not> isl (fst (collect F (dict_get (input_data task) ''stock_code'') items [] c))"
    by (intro collect_returns) auto
  then obtain d c' where
    "collect F (dict_get (input_data task) ''stock_code'') items [] c = (Inr d, c')"
    by (metis isl_def prod.collapse sum.exhaust)
  with it show "\<exists>r c'. DataCollectionAgent_execute F task c = (Inr r, c') \<and> success r"
    by (simp add: DataCollectionAgent_execute_def)
qed

theorem DataCollectionAgent_success_unconditional_witness:
  "\<exists>r c'. DataCollectionAgent_execute sample_fetchers (data_task ''000001'') 100 = (Inr r, c')
            \<and> success r"
  using DataCollectionAgent_success_unconditional [of sample_fetchers "data_task ''000001''" 100]
  by (simp add: sample_fetchers_def data_task_def dict_get_default_def)

text \<open>
  Claim C8, as the code has it. \<^verbatim>\<open>execution_time\<close> is never set from a measurement:
  every result that \<^verbatim>\<open>DataCollectionAgent.execute\<close> returns carries the default
  \<^verbatim>\<open>0\<close> of the dataclass, however long the fetch methods took.
\<close>

theorem execute_time_is_default:
  "DataCollectionAgent_execute F task c = (Inr r, c') \<Longrightarrow> execution_time r = 0"
  using execute_result_fields by (metis AgentResult.sel(5))

theorem execute_time_is_default_witness:
  "DataCollectionAgent_execute sample_fetchers (data_task ''000001'') 100 =
      (Inr (AgentResult ''data_000001'' True
        [(''price_data'', PList [PNum 12, PNum 13]),
         (''financial_data'', PDict [(''roe'', PNum 15)]),
         (''news_data'', PList [PStr ''earnings''])]
        None 0), 106)
   \<and> execution_time (AgentResult ''data_000001'' True
        [(''price_data'', PList [PNum 12, PNum 13]),
         (''financial_data'', PDict [(''roe'', PNum 15)]),
         (''news_data'', PList [PStr ''earnings''])]
        None 0) = 0"
proof -
  have run: "DataCollectionAgent_execute sample_fetchers (data_task ''000001'') 100 =
      (Inr (AgentResult ''data_000001'' True
        [(''price_data'', PList [PNum 12, PNum 13]),
         (''financial_data'', PDict [(''roe'', PNum 15)]),
         (''news_data'', PList [PStr ''earnings''])]
        None 0), 106)"
    by (simp add: DataCollectionAgent_execute_def sample_fetchers_def data_task_def
          dict_get_def dict_get_default_def)
  from run execute_time_is_default [OF run] show ?thesis by simp
qed

text \<open>
  Claim C8, as the specification states it, fails: the run below starts at second 100 and
  ends at second 106, and the result records 0 seconds, not the 6 that passed.
\<close>

theorem execution_time_not_measured_counterexample:
  "DataCollectionAgent_execute sample_fetchers (data_task ''000001'') 100 =
      (Inr (AgentResult ''data_000001'' True
        [(''price_data'', PList [PNum 12, PNum 13]),
         (''financial_data'', PDict [(''roe'', PNum 15)]),
         (''news_data'', PList [PStr ''earnings''])]
        None 0), 106)
   \<and> execution_time (AgentResult ''data_000001'' True
        [(''price_data'', PList [PNum 12, PNum 13]),
         (''financial_data'', PDict [(''roe'', PNum 15)]),
         (''news_data'', PList [PStr ''earnings''])]
        None 0) \<noteq> 106 - 100"
  by (simp add: DataCollectionAgent_execute_def sample_fetchers_def data_task_def
          dict_get_def dict_get_default_def)

text \<open>
  Claim C3, as the code has it. \<^verbatim>\<open>DataCollectionAgent.execute\<close> catches nothing, for
  every task, data source and clock.
  \<^item> An exception that leaves it is the \<^verbatim>\<open>TypeError\<close> of iterating \<^verbatim>\<open>data_types\<close> or
    exactly the exception that one of its fetch methods raised, unchanged; a result that it
    returns has \<^verbatim>\<open>success = true\<close> and no error message.
  \<^item> When \<^verbatim>\<open>data_types\<close> cannot be iterated, the \<^verbatim>\<open>TypeError\<close> leaves it; when
    there is nothing to iterate, it returns a result with empty data.
  \<^item> When the first data type is \<^verbatim>\<open>price\<close>, \<^verbatim>\<open>financial\<close> or \<^verbatim>\<open>news\<close>, its
    fetch method is called: if that raises, the exception leaves \<^verbatim>\<open>execute\<close> and no
    \<^verbatim>\<open>AgentResult\<close> is produced; if it returns, \<^verbatim>\<open>execute\<close> goes on from the clock
    of the return and ends (raising or not, with which exception, at which clock) as it does
    on the remaining data types. Any other first data type is skipped.
  \<^item> For a task without a \<^verbatim>\<open>data_types\<close> entry (the task the orchestrator builds) the
    price, filings and news fetch methods are called in this order; a result is produced
    only when all three return.
\<close>

theorem execute_propagates_fetch_fault:
  "(DataCollectionAgent_execute F task c = (Inl e, c') \<longrightarrow>
       py_iter (dict_get_default (input_data task) ''data_types''
                  (PList [PStr ''price'', PStr ''financial'', PStr ''news''])) = Inl e
     \<or> (\<exists>t. fetch_price_data F (dict_get (input_data task) ''stock_code'') t = (Inl e, c'))
     \<or> (\<exists>t. fetch_financial_data F (dict_get (input_data task) ''stock_code'') t = (Inl e, c'))
     \<or> (\<exists>t. fetch_news_data F (dict_get (input_data task) ''stock_code'') t = (Inl e, c')))
   \<and> (DataCollectionAgent_execute F task c = (Inr r, c') \<longrightarrow> success r \<and> error_msg r = None)
   \<and> (py_iter (dict_get_default (input_data task) ''data_types''
                  (PList [PStr ''price'', PStr ''financial'', PStr ''news''])) = Inl e
        \<longrightarrow> DataCollectionAgent_execute F task c = (Inl e, c))
   \<and> (py_iter (dict_get_default (input_data task) ''data_types''
                  (PList [PStr ''price'', PStr ''financial'', PStr ''news''])) = Inr []
        \<longrightarrow> DataCollectionAgent_execute F task c =
              (Inr (AgentResult (task_id task) True [] None 0), c))
   \<and> (py_iter (dict_get_default (input_data task) ''data_types''
                  (PList [PStr ''price'', PStr ''financial'', PStr ''news''])) = Inr (x # rest)
        \<longrightarrow>
          (x = PStr ''price'' \<longrightarrow>
             (fetch_price_data F (dict_get (input_data task) ''stock_code'') c = (Inl e, c1)
                \<longrightarrow> DataCollectionAgent_execute F task c = (Inl e, c1))
           \<and> (fetch_price_data F (dict_get (input_data task) ''stock_code'') c = (Inr v, c1)
                \<longrightarrow> raised (DataCollectionAgent_execute F task c)
                     = raised (DataCollectionAgent_execute F (with_data_types task rest) c1)))
        \<and> (x = PStr ''financial'' \<longrightarrow>
             (fetch_financial_data F (dict_get (input_data task) ''stock_code'') c = (Inl e, c1)
                \<longrightarrow> DataCollectionAgent_execute F task c = (Inl e, c1))
           \<and> (fetch_financial_data F (dict_get (input_data task) ''stock_code'') c = (Inr v, c1)
                \<longrightarrow> raised (DataCollectionAgent_execute F task c)
                     = raised (DataCollectionAgent_execute F (with_data_types task rest) c1)))
        \<and> (x = PStr ''news'' \<longrightarrow>
             (fetch_news_data F (dict_get (input_data task) ''stock_code'') c = (Inl e, c1)
                \<longrightarrow> DataCollectionAgent_execute F task c = (Inl e, c1))
           \<and> (fetch_news_data F (dict_get (input_data task) ''stock_code'') c = (Inr v, c1)
                \<longrightarrow> raised (DataCollectionAgent_execute F task c)
                     = raised (DataCollectionAgent_execute F (with_data_types task rest) c1)))
        \<and> (x \<noteq> PStr ''price'' \<and> x \<noteq> PStr ''financial'' \<and> x \<noteq> PStr ''news''
             \<longrightarrow> raised (DataCollectionAgent_execute F task c)
                  = raised (DataCollectionAgent_execute F (with_data_types task rest) c)))
   \<and> (map_of (input_data task) ''data_types'' = None \<longrightarrow>
         (fetch_price_data F (dict_get (input_data task) ''stock_code'') c = (Inl e, c1)
            \<longrightarrow> DataCollectionAgent_execute F task c = (Inl e, c1))
       \<and> (fetch_price_data F (dict_get (input_data task) ''stock_code'') c = (Inr p, c1)
          \<and> fetch_financial_data F (dict_get (input_data task) ''stock_code'') c1 = (Inl e, c2)
            \<longrightarrow> DataCollectionAgent_execute F task c = (Inl e, c2))
       \<and> (fetch_price_data F (dict_get (input_data task) ''stock_code'') c = (Inr p, c1)
          \<and> fetch_financial_data F (dict_get (input_data task) ''stock_code'') c1 = (Inr f, c2)
          \<and> fetch_news_data F (dict_get (input_data task) ''stock_code'') c2 = (Inl e, c3)
            \<longrightarrow> DataCollectionAgent_execute F task c = (Inl e, c3))
       \<and> (fetch_price_data F (dict_get (input_data task) ''stock_code'') c = (Inr p, c1)
          \<and> fetch_financial_data F (dict_get (input_data task) ''stock_code'') c1 = (Inr f, c2)
          \<and> fetch_news_data F (dict_get (input_data task) ''stock_code'') c2 = (Inr n, c3)
            \<longrightarrow> DataCollectionAgent_execute F task c =
                  (Inr (AgentResult (task_id task) True
                     [(''price_data'', p), (''financial_data'', f), (''news_data'', n)] None 0), c3)))"
  (is "?bound \<and> ?result \<and> ?typeerror \<and> ?empty \<and> ?step \<and> ?default")
proof (intro conjI)
  show ?bound
  proof
    assume run: "DataCollectionAgent_execute F task c = (Inl e, c')"
    show "py_iter (dict_get_default (input_data task) ''data_types''
                  (PList [PStr ''price'', PStr ''financial'', PStr ''news''])) = Inl e
     \<or> (\<exists>t. fetch_price_data F (dict_get (input_data task) ''stock_code'') t = (Inl e, c'))
     \<or> (\<exists>t. fetch_financial_data F (dict_get (input_data task) ''stock_code'') t = (Inl e, c'))
     \<or> (\<exists>t. fetch_news_data F (dict_get (input_data task) ''stock_code'') t = (Inl e, c'))"
    proof (cases "py_iter (dict_get_default (input_data task) ''data_types''
                  (PList [PStr ''price'', PStr ''financial'', PStr ''news'']))")
      case (Inl x)
      with run show ?thesis by (simp add: DataCollectionAgent_execute_def)
    next
      case (Inr items)
      with run have "collect F (dict_get (input_data task) ''stock_code'') items [] c = (Inl e, c')"
        by (auto simp: DataCollectionAgent_execute_def split: prod.splits sum.splits)
      from collect_raises[OF this] show ?thesis by blast
    qed
  qed
next
  show ?result
  proof
    assume "DataCollectionAgent_execute F task c = (Inr r, c')"
    from execute_result_fields[OF this] show "success r \<and> error_msg r = None"
      by (metis AgentResult.sel(2) AgentResult.sel(4))
  qed
next
  show ?typeerror by (simp add: DataCollectionAgent_execute_def)
next
  show ?empty by (simp add: DataCollectionAgent_execute_def)
next
  show ?step
  proof
    assume items: "py_iter (dict_get_default (input_data task) ''data_types''
                  (PList [PStr ''price'', PStr ''financial'', PStr ''news''])) = Inr (x # rest)"
    note whole = execute_raised_collect[OF items, of F c "[]"]
    show "(x = PStr ''price'' \<longrightarrow>
             (fetch_price_data F (dict_get (input_data task) ''stock_code'') c = (Inl e, c1)
                \<longrightarrow> DataCollectionAgent_execute F task c = (Inl e, c1))
           \<and> (fetch_price_data F (dict_get (input_data task) ''stock_code'') c = (Inr v, c1)
                \<longrightarrow> raised (DataCollectionAgent_execute F task c)
                     = raised (DataCollectionAgent_execute F (with_data_types task rest) c1)))
        \<and> (x = PStr ''financial'' \<longrightarrow>
             (fetch_financial_data F (dict_get (input_data task) ''stock_code'') c = (Inl e, c1)
                \<longrightarrow> DataCollectionAgent_execute F task c = (Inl e, c1))
           \<and> (fetch_financial_data F (dict_get (input_data task) ''stock_code'') c = (Inr v, c1)
                \<longrightarrow> raised (DataCollectionAgent_execute F task c)
                     = raised (DataCollectionAgent_execute F (with_data_types task rest) c1)))
        \<and> (x = PStr ''news'' \<longrightarrow>
             (fetch_news_data F (dict_get (input_data task) ''stock_code'') c = (Inl e, c1)
                \<longrightarrow> DataCollectionAgent_execute F task c = (Inl e, c1))
           \<and> (fetch_news_data F (dict_get (input_data task) ''stock_code'') c = (Inr v, c1)
                \<longrightarrow> raised (DataCollectionAgent_execute F task c)
                     = raised (DataCollectionAgent_execute F (with_data_types task rest) c1)))
        \<and> (x \<noteq> PStr ''price'' \<and> x \<noteq> PStr ''financial'' \<and> x \<noteq> PStr ''news''
             \<longrightarrow> raised (DataCollectionAgent_execute F task c)
                  = raised (DataCollectionAgent_execute F (with_data_types task rest) c))"
    proof (intro conjI impI)
      assume "x = PStr ''price''"
        and "fetch_price_data F (dict_get (input_data task) ''stock_code'') c = (Inl e, c1)"
      with items show "DataCollectionAgent_execute F task c = (Inl e, c1)"
        by (simp add: DataCollectionAgent_execute_def)
    next
      assume "x = PStr ''price''"
        and "fetch_price_data F (dict_get (input_data task) ''stock_code'') c = (Inr v, c1)"
      with whole show "raised (DataCollectionAgent_execute F task c)
                     = raised (DataCollectionAgent_execute F (with_data_types task rest) c1)"
        by (simp add: execute_raised_rest[of F task rest c1 "dict_set ''price_data'' v []"])
    next
      assume "x = PStr ''financial''"
        and "fetch_financial_data F (dict_get (input_data task) ''stock_code'') c = (Inl e, c1)"
      with items show "DataCollectionAgent_execute F task c = (Inl e, c1)"
        by (simp add: DataCollectionAgent_execute_def)
    next
      assume "x = PStr ''financial''"
        and "fetch_financial_data F (dict_get (input_data task) ''stock_code'') c = (Inr v, c1)"
      with whole show "raised (DataCollectionAgent_execute F task c)
                     = raised (DataCollectionAgent_execute F (with_data_types task rest) c1)"
        by (simp add: execute_raised_rest[of F task rest c1 "dict_set ''financial_data'' v []"])
    next
      assume "x = PStr ''news''"
        and "fetch_news_data F (dict_get (input_data task) ''stock_code'') c = (Inl e, c1)"
      with items show "DataCollectionAgent_execute F task c = (Inl e, c1)"
        by (simp add: DataCollectionAgent_execute_def)
    next
      assume "x = PStr ''news''"
        and "fetch_news_data F (dict_get (input_data task) ''stock_code'') c = (Inr v, c1)"
      with whole show "raised (DataCollectionAgent_execute F task c)
                     = raised (DataCollectionAgent_execute F (with_data_types task rest) c1)"
        by (simp add: execute_raised_rest[of F task rest c1 "dict_set ''news_data'' v []"])
    next
      assume "x \<noteq> PStr ''price'' \<and> x \<noteq> PStr ''financial'' \<and> x \<noteq> PStr ''news''"
      with whole show "raised (DataCollectionAgent_execute F task c)
                  = raised (DataCollectionAgent_execute F (with_data_types task rest) c)"
        by (simp add: execute_raised_rest[of F task rest c "[]"])
    qed
  qed
next
  show ?default by (simp add: DataCollectionAgent_execute_def dict_get_default_def)
qed

theorem execute_propagates_fetch_fault_witness:
  "raised (DataCollectionAgent_execute failing_fetchers (data_task ''000001'') 100) =
     (Some (PyException ''ConnectionError'' ''filings provider unreachable''), 132)
   \<and> DataCollectionAgent_execute failing_fetchers
        (with_data_types (data_task ''000001'') [PStr ''financial'', PStr ''news'']) 102 =
     (Inl (PyException ''ConnectionError'' ''filings provider unreachable''), 132)"
proof -
  have first: "py_iter (dict_get_default (input_data (data_task ''000001'')) ''data_types''
                  (PList [PStr ''price'', PStr ''financial'', PStr ''news'']))
               = Inr (PStr ''price'' # [PStr ''financial'', PStr ''news''])"
    by (simp add: data_task_def dict_get_default_def)
  have price: "fetch_price_data failing_fetchers
                 (dict_get (input_data (data_task ''000001'')) ''stock_code'') 100
               = (Inr (PList [PNum 12, PNum 13]), 102)"
    by (simp add: failing_fetchers_def)
  have second: "py_iter (dict_get_default
                  (input_data (with_data_types (data_task ''000001'')
                                 [PStr ''financial'', PStr ''news''])) ''data_types''
                  (PList [PStr ''price'', PStr ''financial'', PStr ''news'']))
               = Inr (PStr ''financial'' # [PStr ''news''])"
    by (simp add: with_data_types_reads)
  have filings: "fetch_financial_data failing_fetchers
                 (dict_get (input_data (with_data_types (data_task ''000001'')
                                 [PStr ''financial'', PStr ''news''])) ''stock_code'') 102
               = (Inl (PyException ''ConnectionError'' ''filings provider unreachable''), 132)"
    by (simp add: failing_fetchers_def)
  from execute_propagates_fetch_fault
         [where F = failing_fetchers and task = "data_task ''000001''" and c = 100
            and x = "PStr ''price''" and rest = "[PStr ''financial'', PStr ''news'']"
            and v = "PList [PNum 12, PNum 13]" and ?c1.0 = 102]
       first price
  have one: "raised (DataCollectionAgent_execute failing_fetchers (data_task ''000001'') 100)
           = raised (DataCollectionAgent_execute failing_fetchers
               (with_data_types (data_task ''000001'') [PStr ''financial'', PStr ''news'']) 102)"
    by blast
  from execute_propagates_fetch_fault
         [where F = failing_fetchers
            and task = "with_data_types (data_task ''000001'') [PStr ''financial'', PStr ''news'']"
            and c = 102 and x = "PStr ''financial''" and rest = "[PStr ''news'']"
            and e = "PyException ''ConnectionError'' ''filings provider unreachable''"
            and ?c1.0 = 132]
       second filings
  have two: "DataCollectionAgent_execute failing_fetchers
        (with_data_types (data_task ''000001'') [PStr ''financial'', PStr ''news'']) 102 =
     (Inl (PyException ''ConnectionError'' ''filings provider unreachable''), 132)"
    by blast
  from one two show ?thesis by simp
qed

text \<open>
  Claim C3, as the specification states it, fails: the filings provider raises, and the
  executor returns no result with \<^verbatim>\<open>success = false\<close>; the exception passes its boundary.
\<close>

theorem executor_boundary_counterexample:
  "fetch_financial_data failing_fetchers (PStr ''000001'') 102 =
     (Inl (PyException ''ConnectionError'' ''filings provider unreachable''), 132)
   \<and> DataCollectionAgent_execute failing_fetchers (data_task ''000001'') 100 =
     (Inl (PyException ''ConnectionError'' ''filings provider unreachable''), 132)"
  by (simp add: DataCollectionAgent_execute_def failing_fetchers_def data_task_def
          dict_get_def dict_get_default_def)

section \<open>Properties of gather\<close>

lemma completion_set: "set (map snd (sort_key f (enumerate 0 xs))) = set xs"
proof -
  have "set (map snd (sort_key f (enumerate 0 xs))) = snd ` set (sort_key f (enumerate 0 xs))"
    by (simp only: set_map)
  also have "\<dots> = snd ` set (enumerate 0 xs)" by (simp only: set_sort)
  also have "\<dots> = set (map snd (enumerate 0 xs))" by (simp only: set_map)
  also have "\<dots> = set xs" by (simp only: map_snd_enumerate)
  finally show ?thesis .
qed

lemma settle_events: "e \<in> set (fst (settle xs)) \<Longrightarrow> \<exists>t out. (t, out) \<in> set xs \<and> e = Settled t"
  by (induction xs rule: settle.induct) (auto split: prod.splits)

lemma settle_none:
  "snd (settle xs) = None \<Longrightarrow> (t, out) \<in> set xs \<Longrightarrow> Settled t \<in> set (fst (settle xs)) \<and> \<not> isl out"
  by (induction xs rule: settle.induct) (auto split: prod.splits)

lemma settle_some: "snd (settle xs) = Some e \<Longrightarrow> \<exists>t. (t, Inl e) \<in> set xs"
  by (induction xs rule: settle.induct) (auto split: prod.splits)

lemma settle_all_returned: "\<forall>(t, out) \<in> set xs. \<not> isl out \<Longrightarrow> snd (settle xs) = None"
  by (induction xs rule: settle.induct) (auto split: prod.splits)

lemma returned_all: "\<forall>(t, out) \<in> set xs. \<not> isl out \<Longrightarrow> map snd xs = map Inr (returned xs)"
  by (induction xs rule: returned.induct) auto

lemma gather_events:
  "e \<in> set (fst (gather rank coros)) \<Longrightarrow> \<exists>ag t. (ag, t) \<in> set coros \<and> (e = Dispatched t \<or> e = Settled t)"
proof -
  assume a: "e \<in> set (fst (gather rank coros))"
  let ?outs = "map (\<lambda>(ag, t). (t, ag t)) coros"
  let ?comp = "map snd (sort_key (\<lambda>(i, x). rank i) (enumerate 0 ?outs))"
  from a have "e \<in> set (map (\<lambda>(ag, t). Dispatched t) coros) \<or> e \<in> set (fst (settle ?comp))"
    by (auto simp: gather_def Let_def split: prod.splits)
  then show ?thesis
  proof
    assume "e \<in> set (map (\<lambda>(ag, t). Dispatched t) coros)"
    then show ?thesis by auto
  next
    assume "e \<in> set (fst (settle ?comp))"
    from settle_events[OF this] obtain t out where "(t, out) \<in> set ?comp" "e = Settled t" by blast
    then have "(t, out) \<in> set ?outs" by (simp only: completion_set)
    with \<open>e = Settled t\<close> show ?thesis by auto
  qed
qed

lemma gather_returns:
  assumes "snd (gather rank coros) = Inr rs"
  shows "map (\<lambda>(ag, t). ag t) coros = map Inr rs"
    and "(ag, t) \<in> set coros \<Longrightarrow> Settled t \<in> set (fst (gather rank coros))"
proof -
  let ?outs = "map (\<lambda>(ag, t). (t, ag t)) coros"
  let ?comp = "map snd (sort_key (\<lambda>(i, x). rank i) (enumerate 0 ?outs))"
  from assms have none: "snd (settle ?comp) = None" and rs: "rs = returned ?outs"
    by (auto simp: gather_def Let_def split: prod.splits option.splits)
  have all: "\<forall>(t, out) \<in> set ?outs. \<not> isl out"
  proof (clarify)
    fix t out assume "(t, out) \<in> set ?outs" "isl out"
    then have "(t, out) \<in> set ?comp" by (simp only: completion_set)
    from settle_none[OF none this] \<open>isl out\<close> show False by simp
  qed
  from returned_all[OF all] rs have "map snd ?outs = map Inr rs" by simp
  then show "map (\<lambda>(ag, t). ag t) coros = map Inr rs"
    by (simp add: comp_def case_prod_unfold)
  assume "(ag, t) \<in> set coros"
  then have "(t, ag t) \<in> set ?outs" by force
  then have "(t, ag t) \<in> set ?comp" by (simp only: completion_set)
  from settle_none[OF none this] have "Settled t \<in> set (fst (settle ?comp))" by simp
  then show "Settled t \<in> set (fst (gather rank coros))"
    by (auto simp: gather_def Let_def split: prod.splits)
qed

lemma gather_raises:
  assumes "snd (gather rank coros) = Inl e"
  shows "\<exists>ag t. (ag, t) \<in> set coros \<and> ag t = Inl e"
proof -
  let ?outs = "map (\<lambda>(ag, t). (t, ag t)) coros"
  let ?comp = "map snd (sort_key (\<lambda>(i, x). rank i) (enumerate 0 ?outs))"
  from assms have "snd (settle ?comp) = Some e"
    by (auto simp: gather_def Let_def split: prod.splits option.splits)
  from settle_some[OF this] obtain t where "(t, Inl e) \<in> set ?comp" by blast
  then have "(t, Inl e) \<in> set ?outs" by (simp only: completion_set)
  then obtain ag where "(ag, t) \<in> set coros" "ag t = Inl e" by auto
  then show ?thesis by blast
qed

lemma gather_total:
  assumes "map (\<lambda>(ag, t). ag t) coros = map Inr rs"
  shows "snd (gather rank coros) = Inr rs"
proof -
  let ?outs = "map (\<lambda>(ag, t). (t, ag t)) coros"
  let ?comp = "map snd (sort_key (\<lambda>(i, x). rank i) (enumerate 0 ?outs))"
  have sndouts: "map snd ?outs = map Inr rs"
    using assms by (simp add: comp_def case_prod_unfold)
  have all: "\<forall>(t, out) \<in> set ?outs. \<not> isl out"
  proof (clarify)
    fix t out assume "(t, out) \<in> set ?outs" "isl out"
    then have "out \<in> set (map snd ?outs)" by force
    with sndouts have "out \<in> set (map Inr rs)" by simp
    with \<open>isl out\<close> show False by auto
  qed
  then have "\<forall>(t, out) \<in> set ?comp. \<not> isl out" by (simp only: completion_set)
  from settle_all_returned[OF this] have none: "snd (settle ?comp) = None" .
  from returned_all[OF all] sndouts have "map Inr (returned ?outs) = map Inr rs" by simp
  then have "returned ?outs = rs" by (simp add: inj_map_eq_map)
  with none show ?thesis
    by (auto simp: gather_def Let_def split: prod.splits option.splits)
qed

lemma dispatched_types_append:
  "dispatched_types (xs @ ys) = dispatched_types xs @ dispatched_types ys"
  by (induction xs rule: dispatched_types.induct) auto

lemma dispatched_types_settle: "dispatched_types (fst (settle xs)) = []"
  by (induction xs rule: settle.induct) (auto split: prod.splits)

lemma dispatched_types_coros:
  "dispatched_types (map (\<lambda>(ag, t). Dispatched t) coros) = map (\<lambda>(ag, t). task_type t) coros"
  by (induction coros) auto

lemma gather_dispatches:
  "dispatched_types (fst (gather rank coros)) = map (\<lambda>(ag, t). task_type t) coros"
proof -
  obtain evs raised where
    "settle (map snd (sort_key (\<lambda>(i, x). rank i) (enumerate 0 (map (\<lambda>(ag, t). (t, ag t)) coros))))
       = (evs, raised)"
    by (cases "settle (map snd (sort_key (\<lambda>(i, x). rank i) (enumerate 0 (map (\<lambda>(ag, t). (t, ag t)) coros))))")
  then show ?thesis
    using dispatched_types_settle[of "map snd (sort_key (\<lambda>(i, x). rank i) (enumerate 0 (map (\<lambda>(ag, t). (t, ag t)) coros)))"]
    by (simp add: gather_def dispatched_types_append dispatched_types_coros)
qed

section \<open>The shape of a run\<close>

lemma gather_analysis_returns:
  assumes "snd (gather rank (analysis_tasks A sc d)) = Inr ars"
  shows "\<exists>rf rt rs. fundamental A (fundamental_task sc d) = Inr rf
           \<and> technical A (technical_task sc d) = Inr rt
           \<and> sentiment A (sentiment_task sc d) = Inr rs \<and> ars = [rf, rt, rs]"
proof -
  from gather_returns(1)[OF assms]
  have "[fundamental A (fundamental_task sc d), technical A (technical_task sc d),
         sentiment A (sentiment_task sc d)] = map Inr ars"
    by (simp add: analysis_tasks_def)
  then show ?thesis by (auto simp: Cons_eq_map_conv)
qed

lemma gather_analysis_total:
  assumes "fundamental A (fundamental_task sc d) = Inr rf"
      and "technical A (technical_task sc d) = Inr rt"
      and "sentiment A (sentiment_task sc d) = Inr rs"
  shows "snd (gather rank (analysis_tasks A sc d)) = Inr [rf, rt, rs]"
  using assms by (intro gather_total) (simp add: analysis_tasks_def)

lemma gather_analysis_raises:
  assumes "isl (fundamental A (fundamental_task sc d))
         \<or> isl (technical A (technical_task sc d))
         \<or> isl (sentiment A (sentiment_task sc d))"
  shows "isl (snd (gather rank (analysis_tasks A sc d)))"
proof (rule ccontr)
  assume "\<not> isl (snd (gather rank (analysis_tasks A sc d)))"
  then obtain ars where "snd (gather rank (analysis_tasks A sc d)) = Inr ars"
    by (cases "snd (gather rank (analysis_tasks A sc d))") auto
  from gather_analysis_returns[OF this] assms show False by auto
qed

lemma gather_analysis_raised_by:
  assumes "snd (gather rank (analysis_tasks A sc d)) = Inl e"
  shows "fundamental A (fundamental_task sc d) = Inl e
       \<or> technical A (technical_task sc d) = Inl e
       \<or> sentiment A (sentiment_task sc d) = Inl e"
proof -
  from gather_raises[OF assms] obtain ag t where
    "(ag, t) \<in> set (analysis_tasks A sc d)" "ag t = Inl e" by blast
  then show ?thesis by (auto simp: analysis_tasks_def)
qed

lemma gather_analysis_dispatches:
  "dispatched_types (fst (gather rank (analysis_tasks A sc d))) =
     [''fundamental_analysis'', ''technical_analysis'', ''sentiment_analysis'']"
  by (simp add: gather_dispatches analysis_tasks_def fundamental_task_def technical_task_def
        sentiment_task_def)

lemma gather_analysis_events:
  assumes "e \<in> set (fst (gather rank (analysis_tasks A sc d)))"
  shows "\<exists>t. (e = Dispatched t \<or> e = Settled t)
            \<and> task_type t \<in> {''fundamental_analysis'', ''technical_analysis'', ''sentiment_analysis''}"
proof -
  from gather_events[OF assms] obtain ag t where
    "(ag, t) \<in> set (analysis_tasks A sc d)" "e = Dispatched t \<or> e = Settled t" by blast
  then show ?thesis
    by (auto simp: analysis_tasks_def fundamental_task_def technical_task_def sentiment_task_def)
qed

lemma gather_analysis_other_kind:
  assumes "e \<in> set (fst (gather rank (analysis_tasks A sc d)))"
      and "k \<notin> {''fundamental_analysis'', ''technical_analysis'', ''sentiment_analysis''}"
  shows "\<not> is_dispatch_of k e" and "\<not> is_settle_of k e"
  using gather_analysis_events[OF assms(1)] assms(2) by auto

lemma gather_analysis_settled:
  assumes "snd (gather rank (analysis_tasks A sc d)) = Inr ars"
  shows "\<exists>e \<in> set (fst (gather rank (analysis_tasks A sc d))). is_settle_of ''fundamental_analysis'' e"
    and "\<exists>e \<in> set (fst (gather rank (analysis_tasks A sc d))). is_settle_of ''technical_analysis'' e"
    and "\<exists>e \<in> set (fst (gather rank (analysis_tasks A sc d))). is_settle_of ''sentiment_analysis'' e"
proof -
  have "Settled (fundamental_task sc d) \<in> set (fst (gather rank (analysis_tasks A sc d)))"
    by (rule gather_returns(2)[OF assms, of "fundamental A"]) (simp add: analysis_tasks_def)
  then show "\<exists>e \<in> set (fst (gather rank (analysis_tasks A sc d))). is_settle_of ''fundamental_analysis'' e"
    by (rule bexI[rotated]) (simp add: fundamental_task_def)
  have "Settled (technical_task sc d) \<in> set (fst (gather rank (analysis_tasks A sc d)))"
    by (rule gather_returns(2)[OF assms, of "technical A"]) (simp add: analysis_tasks_def)
  then show "\<exists>e \<in> set (fst (gather rank (analysis_tasks A sc d))). is_settle_of ''technical_analysis'' e"
    by (rule bexI[rotated]) (simp add: technical_task_def)
  have "Settled (sentiment_task sc d) \<in> set (fst (gather rank (analysis_tasks A sc d)))"
    by (rule gather_returns(2)[OF assms, of "sentiment A"]) (simp add: analysis_tasks_def)
  then show "\<exists>e \<in> set (fst (gather rank (analysis_tasks A sc d))). is_settle_of ''sentiment_analysis'' e"
    by (rule bexI[rotated]) (simp add: sentiment_task_def)
qed

lemma gather_no_risk_dispatch:
  "\<forall>e \<in> set (fst (gather rank (analysis_tasks A sc d))). \<not> is_dispatch_of ''risk_assessment'' e"
  using gather_analysis_other_kind(1)[where k = "''risk_assessment''"] by simp

lemma gather_no_risk_settle:
  "\<forall>e \<in> set (fst (gather rank (analysis_tasks A sc d))). \<not> is_settle_of ''risk_assessment'' e"
  using gather_analysis_other_kind(2)[where k = "''risk_assessment''"] by simp

lemma gather_no_strategy_dispatch:
  "\<forall>e \<in> set (fst (gather rank (analysis_tasks A sc d))). \<not> is_dispatch_of ''strategy_generation'' e"
  using gather_analysis_other_kind(1)[where k = "''strategy_generation''"] by simp

text \<open>The five ways in which a run ends.\<close>

lemma run_data_raises:
  "data_collector A (data_task sc) = Inl e \<Longrightarrow>
   analyze_stock A rank now sc up = ([Dispatched (data_task sc), Settled (data_task sc)], Inl e)"
  by (simp add: analyze_stock_def await_execute_def)

lemma run_analysis_raises:
  assumes "data_collector A (data_task sc) = Inr d"
      and "snd (gather rank (analysis_tasks A sc d)) = Inl e"
  shows "analyze_stock A rank now sc up =
           ([Dispatched (data_task sc), Settled (data_task sc)]
              @ fst (gather rank (analysis_tasks A sc d)), Inl e)"
  using assms
  by (cases "gather rank (analysis_tasks A sc d)") (simp add: analyze_stock_def await_execute_def)

lemma run_risk_raises:
  assumes "data_collector A (data_task sc) = Inr d"
      and "snd (gather rank (analysis_tasks A sc d)) = Inr ars"
      and "fst (risk A (risk_task sc ars up)) = Inl e"
  shows "analyze_stock A rank now sc up =
           ([Dispatched (data_task sc), Settled (data_task sc)]
              @ fst (gather rank (analysis_tasks A sc d))
              @ [Dispatched (risk_task sc ars up), Settled (risk_task sc ars up)], Inl e)"
  using assms
  by (cases "gather rank (analysis_tasks A sc d)"; cases "risk A (risk_task sc ars up)")
     (simp add: analyze_stock_def await_execute_def)

lemma run_strategy_raises:
  assumes "data_collector A (data_task sc) = Inr d"
      and "snd (gather rank (analysis_tasks A sc d)) = Inr ars"
      and "risk A (risk_task sc ars up) = (Inr rr, results1, profile1)"
      and "fst (strategy A (strategy_task sc results1 rr profile1)) = Inl e"
  shows "analyze_stock A rank now sc up =
           ([Dispatched (data_task sc), Settled (data_task sc)]
              @ fst (gather rank (analysis_tasks A sc d))
              @ [Dispatched (risk_task sc ars up), Settled (risk_task sc ars up),
                 Dispatched (strategy_task sc results1 rr profile1),
                 Settled (strategy_task sc results1 rr profile1)],
            Inl e)"
  using assms
  by (cases "gather rank (analysis_tasks A sc d)";
      cases "strategy A (strategy_task sc results1 rr profile1)")
     (simp add: analyze_stock_def await_execute_def)

lemma run_strategy_returns:
  assumes "data_collector A (data_task sc) = Inr d"
      and "snd (gather rank (analysis_tasks A sc d)) = Inr ars"
      and "risk A (risk_task sc ars up) = (Inr rr, results1, profile1)"
      and "strategy A (strategy_task sc results1 rr profile1) = (Inr sr, results2, risk_data2)"
  shows "analyze_stock A rank now sc up =
           ([Dispatched (data_task sc), Settled (data_task sc)]
              @ fst (gather rank (analysis_tasks A sc d))
              @ [Dispatched (risk_task sc ars up), Settled (risk_task sc ars up),
                 Dispatched (strategy_task sc results1 rr profile1),
                 Settled (strategy_task sc results1 rr profile1)],
            final_record sc results2 risk_data2 sr now)"
  using assms
  by (cases "gather rank (analysis_tasks A sc d)") (simp add: analyze_stock_def await_execute_def)

lemma log_cases:
  obtains
    (data_raised)
      "fst (analyze_stock A rank now sc up) = [Dispatched (data_task sc), Settled (data_task sc)]"
  | (analysis_raised) d where
      "fst (analyze_stock A rank now sc up) =
         [Dispatched (data_task sc), Settled (data_task sc)]
           @ fst (gather rank (analysis_tasks A sc d))"
  | (risk_raised) d ars where
      "snd (gather rank (analysis_tasks A sc d)) = Inr ars"
      "fst (analyze_stock A rank now sc up) =
         [Dispatched (data_task sc), Settled (data_task sc)]
           @ fst (gather rank (analysis_tasks A sc d))
           @ [Dispatched (risk_task sc ars up), Settled (risk_task sc ars up)]"
  | (strategy_settled) d ars rr results1 profile1 where
      "snd (gather rank (analysis_tasks A sc d)) = Inr ars"
      "fst (analyze_stock A rank now sc up) =
         [Dispatched (data_task sc), Settled (data_task sc)]
           @ fst (gather rank (analysis_tasks A sc d))
           @ [Dispatched (risk_task sc ars up), Settled (risk_task sc ars up),
              Dispatched (strategy_task sc results1 rr profile1),
              Settled (strategy_task sc results1 rr profile1)]"
proof (cases "data_collector A (data_task sc)")
  case (Inl e)
  from run_data_raises[OF this, of rank now up] show ?thesis
    by (intro data_raised) simp
next
  case d: (Inr d)
  show ?thesis
  proof (cases "snd (gather rank (analysis_tasks A sc d))")
    case (Inl e)
    from run_analysis_raises[OF d this, of now up] show ?thesis
      by (intro analysis_raised[of d]) simp
  next
    case g: (Inr ars)
    obtain out results1 profile1 where r: "risk A (risk_task sc ars up) = (out, results1, profile1)"
      by (cases "risk A (risk_task sc ars up)")
    show ?thesis
    proof (cases out)
      case (Inl e)
      with r have "fst (risk A (risk_task sc ars up)) = Inl e" by simp
      from run_risk_raises[OF d g this, of now] show ?thesis
        by (intro risk_raised[of d ars, OF g]) simp
    next
      case (Inr rr)
      note r' = r[unfolded Inr]
      obtain out2 results2 risk_data2 where
        s: "strategy A (strategy_task sc results1 rr profile1) = (out2, results2, risk_data2)"
        by (cases "strategy A (strategy_task sc results1 rr profile1)")
      show ?thesis
      proof (cases out2)
        case (Inl e)
        with s have "fst (strategy A (strategy_task sc results1 rr profile1)) = Inl e" by simp
        from run_strategy_raises[OF d g r' this, of now] show ?thesis
          by (intro strategy_settled[OF g]) simp
      next
        case sr: (Inr sr)
        from run_strategy_returns[OF d g r' s[unfolded sr], of now] show ?thesis
          by (intro strategy_settled[OF g]) simp
      qed
    qed
  qed
qed

text \<open>Every run that returns went through all four stages.\<close>

lemma run_returns:
  assumes "snd (analyze_stock A rank now sc up) = Inr rec"
  shows "\<exists>d rf rt rs rr results1 profile1 sr results2 risk_data2.
           data_collector A (data_task sc) = Inr d
         \<and> fundamental A (fundamental_task sc d) = Inr rf
         \<and> technical A (technical_task sc d) = Inr rt
         \<and> sentiment A (sentiment_task sc d) = Inr rs
         \<and> risk A (risk_task sc [rf, rt, rs] up) = (Inr rr, results1, profile1)
         \<and> strategy A (strategy_task sc results1 rr profile1) = (Inr sr, results2, risk_data2)
         \<and> final_record sc results2 risk_data2 sr now = Inr rec
         \<and> fst (analyze_stock A rank now sc up) =
             [Dispatched (data_task sc), Settled (data_task sc)]
              @ fst (gather rank (analysis_tasks A sc d))
              @ [Dispatched (risk_task sc [rf, rt, rs] up), Settled (risk_task sc [rf, rt, rs] up),
                 Dispatched (strategy_task sc results1 rr profile1),
                 Settled (strategy_task sc results1 rr profile1)]"
proof (cases "data_collector A (data_task sc)")
  case (Inl e)
  from run_data_raises[OF this] assms show ?thesis by simp
next
  case d: (Inr d)
  show ?thesis
  proof (cases "snd (gather rank (analysis_tasks A sc d))")
    case (Inl e)
    from run_analysis_raises[OF d this] assms show ?thesis by simp
  next
    case g: (Inr ars)
    from gather_analysis_returns[OF g] obtain rf rt rs where
      an: "fundamental A (fundamental_task sc d) = Inr rf"
          "technical A (technical_task sc d) = Inr rt"
          "sentiment A (sentiment_task sc d) = Inr rs" and ars: "ars = [rf, rt, rs]" by blast
    note g' = g[unfolded ars]
    obtain out results1 profile1 where
      r: "risk A (risk_task sc [rf, rt, rs] up) = (out, results1, profile1)"
      by (cases "risk A (risk_task sc [rf, rt, rs] up)")
    show ?thesis
    proof (cases out)
      case (Inl e)
      with r have "fst (risk A (risk_task sc [rf, rt, rs] up)) = Inl e" by simp
      from run_risk_raises[OF d g' this] assms show ?thesis by simp
    next
      case (Inr rr)
      note r' = r[unfolded Inr]
      obtain out2 results2 risk_data2 where
        s: "strategy A (strategy_task sc results1 rr profile1) = (out2, results2, risk_data2)"
        by (cases "strategy A (strategy_task sc results1 rr profile1)")
      show ?thesis
      proof (cases out2)
        case (Inl e)
        with s have "fst (strategy A (strategy_task sc results1 rr profile1)) = Inl e" by simp
        from run_strategy_raises[OF d g' r' this] assms show ?thesis by simp
      next
        case sr: (Inr sr)
        note s' = s[unfolded sr]
        from run_strategy_returns[OF d g' r' s', of now] assms
        have "final_record sc results2 risk_data2 sr now = Inr rec"
          and "fst (analyze_stock A rank now sc up) =
             [Dispatched (data_task sc), Settled (data_task sc)]
              @ fst (gather rank (analysis_tasks A sc d))
              @ [Dispatched (risk_task sc [rf, rt, rs] up), Settled (risk_task sc [rf, rt, rs] up),
                 Dispatched (strategy_task sc results1 rr profile1),
                 Settled (strategy_task sc results1 rr profile1)]"
          by simp_all
        with d an r' s' show ?thesis by blast
      qed
    qed
  qed
qed

lemma precedes_skip:
  "\<forall>e \<in> set xs. \<not> P e \<and> \<not> Q e \<Longrightarrow> precedes P Q (xs @ ys) = precedes P Q ys"
  by (induction xs) auto

lemma precedes_hit:
  "\<exists>e \<in> set xs. P e \<Longrightarrow> \<forall>e \<in> set xs. \<not> Q e \<Longrightarrow> precedes P Q (xs @ ys)"
  by (induction xs) auto

lemma precedes_never:
  "\<forall>e \<in> set xs. \<not> Q e \<Longrightarrow> precedes P Q xs"
  by (induction xs) auto

lemma log_starts_with_data:
  "\<exists>rest. fst (analyze_stock A rank now sc up) =
      Dispatched (data_task sc) # Settled (data_task sc) # rest"
  by (cases rule: log_cases[of A rank now sc up]) simp_all

lemma data_before_analysis:
  assumes "k \<noteq> ''data_collection''"
  shows "precedes (is_settle_of ''data_collection'') (is_dispatch_of k)
           (fst (analyze_stock A rank now sc up))"
proof -
  from log_starts_with_data obtain rest where
    "fst (analyze_stock A rank now sc up) =
       Dispatched (data_task sc) # Settled (data_task sc) # rest" by blast
  with assms show ?thesis by (simp add: data_task_def)
qed

lemma analysis_before_risk:
  assumes k: "k = ''fundamental_analysis'' \<or> k = ''technical_analysis'' \<or> k = ''sentiment_analysis''"
  shows "precedes (is_settle_of k) (is_dispatch_of ''risk_assessment'')
           (fst (analyze_stock A rank now sc up))"
proof -
  have head: "\<And>rest. precedes (is_settle_of k) (is_dispatch_of ''risk_assessment'')
                 ([Dispatched (data_task sc), Settled (data_task sc)] @ rest)
               = precedes (is_settle_of k) (is_dispatch_of ''risk_assessment'') rest"
    using k by (auto simp: data_task_def)
  show ?thesis
  proof (cases rule: log_cases[of A rank now sc up])
    case data_raised
    with k show ?thesis by (auto simp: data_task_def)
  next
    case (analysis_raised d)
    with head precedes_never[OF gather_no_risk_dispatch] show ?thesis by simp
  next
    case (risk_raised d ars)
    from gather_analysis_settled[OF risk_raised(1)] k
    have "\<exists>e \<in> set (fst (gather rank (analysis_tasks A sc d))). is_settle_of k e" by blast
    from precedes_hit[OF this gather_no_risk_dispatch] risk_raised(2) head show ?thesis by simp
  next
    case (strategy_settled d ars rr results1 profile1)
    from gather_analysis_settled[OF strategy_settled(1)] k
    have "\<exists>e \<in> set (fst (gather rank (analysis_tasks A sc d))). is_settle_of k e" by blast
    from precedes_hit[OF this gather_no_risk_dispatch] strategy_settled(2) head show ?thesis by simp
  qed
qed

lemma risk_before_strategy:
  "precedes (is_settle_of ''risk_assessment'') (is_dispatch_of ''strategy_generation'')
           (fst (analyze_stock A rank now sc up))"
proof -
  have head: "\<And>rest. precedes (is_settle_of ''risk_assessment'') (is_dispatch_of ''strategy_generation'')
                 ([Dispatched (data_task sc), Settled (data_task sc)] @ rest)
               = precedes (is_settle_of ''risk_assessment'') (is_dispatch_of ''strategy_generation'') rest"
    by (simp add: data_task_def)
  have skip: "\<And>d. \<forall>e \<in> set (fst (gather rank (analysis_tasks A sc d))).
                 \<not> is_settle_of ''risk_assessment'' e \<and> \<not> is_dispatch_of ''strategy_generation'' e"
    using gather_no_risk_settle gather_no_strategy_dispatch by blast
  show ?thesis
  proof (cases rule: log_cases[of A rank now sc up])
    case data_raised
    then show ?thesis by (simp add: data_task_def)
  next
    case (analysis_raised d)
    with head precedes_never[OF gather_no_strategy_dispatch] show ?thesis by simp
  next
    case (risk_raised d ars)
    have "precedes (is_settle_of ''risk_assessment'') (is_dispatch_of ''strategy_generation'')
            [Dispatched (risk_task sc ars up), Settled (risk_task sc ars up)]"
      by (simp add: risk_task_def)
    with risk_raised(2) head precedes_skip[OF skip] show ?thesis by simp
  next
    case (strategy_settled d ars rr results1 profile1)
    have "precedes (is_settle_of ''risk_assessment'') (is_dispatch_of ''strategy_generation'')
            [Dispatched (risk_task sc ars up), Settled (risk_task sc ars up),
             Dispatched (strategy_task sc results1 rr profile1),
             Settled (strategy_task sc results1 rr profile1)]"
      by (simp add: risk_task_def)
    with strategy_settled(2) head precedes_skip[OF skip] show ?thesis by simp
  qed
qed

lemma run_dispatch_cases [consumes 1, case_names analysis_raised risk_raised strategy_settled]:
  assumes d: "data_collector A (data_task sc) = Inr d"
  obtains
    (analysis_raised) e where
      "snd (gather rank (analysis_tasks A sc d)) = Inl e"
      "analyze_stock A rank now sc up =
         ([Dispatched (data_task sc), Settled (data_task sc)]
            @ fst (gather rank (analysis_tasks A sc d)), Inl e)"
  | (risk_raised) rf rt rs e where
      "fundamental A (fundamental_task sc d) = Inr rf"
      "technical A (technical_task sc d) = Inr rt"
      "sentiment A (sentiment_task sc d) = Inr rs"
      "analyze_stock A rank now sc up =
         ([Dispatched (data_task sc), Settled (data_task sc)]
            @ fst (gather rank (analysis_tasks A sc d))
            @ [Dispatched (risk_task sc [rf, rt, rs] up), Settled (risk_task sc [rf, rt, rs] up)],
          Inl e)"
  | (strategy_settled) rf rt rs rr results1 profile1 where
      "fundamental A (fundamental_task sc d) = Inr rf"
      "technical A (technical_task sc d) = Inr rt"
      "sentiment A (sentiment_task sc d) = Inr rs"
      "risk A (risk_task sc [rf, rt, rs] up) = (Inr rr, results1, profile1)"
      "fst (analyze_stock A rank now sc up) =
         [Dispatched (data_task sc), Settled (data_task sc)]
            @ fst (gather rank (analysis_tasks A sc d))
            @ [Dispatched (risk_task sc [rf, rt, rs] up), Settled (risk_task sc [rf, rt, rs] up),
               Dispatched (strategy_task sc results1 rr profile1),
               Settled (strategy_task sc results1 rr profile1)]"
proof (cases "snd (gather rank (analysis_tasks A sc d))")
  case (Inl e)
  from run_analysis_raises[OF d this, of now up] Inl show ?thesis
    by (intro analysis_raised[of e])
next
  case g: (Inr ars)
  from gather_analysis_returns[OF g] obtain rf rt rs where
    an: "fundamental A (fundamental_task sc d) = Inr rf"
        "technical A (technical_task sc d) = Inr rt"
        "sentiment A (sentiment_task sc d) = Inr rs" and ars: "ars = [rf, rt, rs]" by blast
  note g' = g[unfolded ars]
  obtain out results1 profile1 where
    r: "risk A (risk_task sc [rf, rt, rs] up) = (out, results1, profile1)"
    by (cases "risk A (risk_task sc [rf, rt, rs] up)")
  show ?thesis
  proof (cases out)
    case (Inl e)
    with r have "fst (risk A (risk_task sc [rf, rt, rs] up)) = Inl e" by simp
    from run_risk_raises[OF d g' this, of now] show ?thesis
      by (intro risk_raised[OF an])
  next
    case (Inr rr)
    note r' = r[unfolded Inr]
    obtain out2 results2 risk_data2 where
      s: "strategy A (strategy_task sc results1 rr profile1) = (out2, results2, risk_data2)"
      by (cases "strategy A (strategy_task sc results1 rr profile1)")
    show ?thesis
    proof (cases out2)
      case (Inl e)
      with s have "fst (strategy A (strategy_task sc results1 rr profile1)) = Inl e" by simp
      from run_strategy_raises[OF d g' r' this, of now] show ?thesis
        by (intro strategy_settled[OF an r']) simp
    next
      case sr: (Inr sr)
      from run_strategy_returns[OF d g' r' s[unfolded sr], of now] show ?thesis
        by (intro strategy_settled[OF an r']) simp
    qed
  qed
qed

lemma run_dispatch_prefix:
  assumes d: "data_collector A (data_task sc) = Inr d"
  shows "take 4 (dispatched_types (fst (analyze_stock A rank now sc up))) =
           [''data_collection'', ''fundamental_analysis'', ''technical_analysis'',
            ''sentiment_analysis'']"
  using d
proof (cases rule: run_dispatch_cases[where rank = rank and now = now and up = up])
  case (analysis_raised e)
  then show ?thesis
    by (simp add: dispatched_types_append gather_analysis_dispatches data_task_def)
next
  case (risk_raised rf rt rs e)
  then show ?thesis
    by (simp add: dispatched_types_append gather_analysis_dispatches data_task_def)
next
  case (strategy_settled rf rt rs rr results1 profile1)
  then show ?thesis
    by (simp add: dispatched_types_append gather_analysis_dispatches data_task_def)
qed

lemma run_risk_dispatch:
  assumes d: "data_collector A (data_task sc) = Inr d"
      and e: "e \<in> set (fst (analyze_stock A rank now sc up))" "is_dispatch_of ''risk_assessment'' e"
  shows "\<exists>rf rt rs. fundamental A (fundamental_task sc d) = Inr rf
           \<and> technical A (technical_task sc d) = Inr rt
           \<and> sentiment A (sentiment_task sc d) = Inr rs
           \<and> e = Dispatched (risk_task sc [rf, rt, rs] up)"
  using d
proof (cases rule: run_dispatch_cases[where rank = rank and now = now and up = up])
  case (analysis_raised x)
  with e gather_no_risk_dispatch[of rank A sc d] show ?thesis
    by (auto simp: data_task_def)
next
  case (risk_raised rf rt rs x)
  with e gather_no_risk_dispatch[of rank A sc d] show ?thesis
    by (auto simp: data_task_def)
next
  case (strategy_settled rf rt rs rr results1 profile1)
  with e gather_no_risk_dispatch[of rank A sc d] show ?thesis
    by (auto simp: data_task_def strategy_task_def)
qed

lemma run_risk_dispatched:
  assumes "data_collector A (data_task sc) = Inr d"
      and "fundamental A (fundamental_task sc d) = Inr rf"
      and "technical A (technical_task sc d) = Inr rt"
      and "sentiment A (sentiment_task sc d) = Inr rs"
  shows "Dispatched (risk_task sc [rf, rt, rs] up) \<in> set (fst (analyze_stock A rank now sc up))"
  using assms(1)
proof (cases rule: run_dispatch_cases[where rank = rank and now = now and up = up])
  case (analysis_raised e)
  with gather_analysis_total[OF assms(2-4), of rank] show ?thesis by simp
next
  case (risk_raised rf' rt' rs' e)
  with assms show ?thesis by simp
next
  case (strategy_settled rf' rt' rs' rr results1 profile1)
  with assms show ?thesis by simp
qed

lemma run_analysis_aborts:
  assumes "data_collector A (data_task sc) = Inr d"
      and "isl (fundamental A (fundamental_task sc d))
         \<or> isl (technical A (technical_task sc d))
         \<or> isl (sentiment A (sentiment_task sc d))"
  shows "\<exists>e. snd (analyze_stock A rank now sc up) = Inl e
           \<and> (fundamental A (fundamental_task sc d) = Inl e
              \<or> technical A (technical_task sc d) = Inl e
              \<or> sentiment A (sentiment_task sc d) = Inl e)"
    and "dispatched_types (fst (analyze_stock A rank now sc up)) =
           [''data_collection'', ''fundamental_analysis'', ''technical_analysis'',
            ''sentiment_analysis'']"
proof -
  from gather_analysis_raises[OF assms(2), of rank] obtain e where
    g: "snd (gather rank (analysis_tasks A sc d)) = Inl e"
    by (cases "snd (gather rank (analysis_tasks A sc d))") auto
  note run = run_analysis_raises[OF assms(1) g, of now up]
  from run have "snd (analyze_stock A rank now sc up) = Inl e" by simp
  with gather_analysis_raised_by[OF g]
  show "\<exists>e. snd (analyze_stock A rank now sc up) = Inl e
           \<and> (fundamental A (fundamental_task sc d) = Inl e
              \<or> technical A (technical_task sc d) = Inl e
              \<or> sentiment A (sentiment_task sc d) = Inl e)" by blast
  from run show "dispatched_types (fst (analyze_stock A rank now sc up)) =
           [''data_collection'', ''fundamental_analysis'', ''technical_analysis'',
            ''sentiment_analysis'']"
    by (simp add: dispatched_types_append gather_analysis_dispatches data_task_def)
qed

lemma run_all_return:
  assumes "data_collector A (data_task sc) = Inr d"
      and "fundamental A (fundamental_task sc d) = Inr rf"
      and "technical A (technical_task sc d) = Inr rt"
      and "sentiment A (sentiment_task sc d) = Inr rs"
      and "risk A (risk_task sc [rf, rt, rs] up) = (Inr rr, results1, profile1)"
      and "strategy A (strategy_task sc results1 rr profile1) = (Inr sr, results2, risk_data2)"
  shows "snd (analyze_stock A rank now sc up) = final_record sc results2 risk_data2 sr now"
    and "dispatched_types (fst (analyze_stock A rank now sc up)) =
           [''data_collection'', ''fundamental_analysis'', ''technical_analysis'',
            ''sentiment_analysis'', ''risk_assessment'', ''strategy_generation'']"
proof -
  note run = run_strategy_returns[OF assms(1) gather_analysis_total[OF assms(2-4)] assms(5,6),
               of rank now]
  from run show "snd (analyze_stock A rank now sc up) = final_record sc results2 risk_data2 sr now"
    by simp
  from run show "dispatched_types (fst (analyze_stock A rank now sc up)) =
           [''data_collection'', ''fundamental_analysis'', ''technical_analysis'',
            ''sentiment_analysis'', ''risk_assessment'', ''strategy_generation'']"
    by (simp add: dispatched_types_append gather_analysis_dispatches data_task_def
          risk_task_def strategy_task_def)
qed

text \<open>The returned dictionary, read entry by entry.\<close>

lemma final_record_strategy:
  "final_record sc results risk_data sr now = Inr rec \<Longrightarrow>
     dict_get rec ''investment_strategy'' = PDict (data sr)"
  by (auto simp: final_record_def dict_get_def split: sum.splits)




section \<open>The sample runs\<close>

lemma sample_data_collected:
  "fst (DataCollectionAgent_execute sample_fetchers (data_task ''000001'') 100) = Inr sample_data_result"
  by (simp add: DataCollectionAgent_execute_def sample_fetchers_def data_task_def
        dict_get_def dict_get_default_def sample_data_result_def)

lemma failing_data_collected:
  "fst (DataCollectionAgent_execute failing_fetchers (data_task ''000001'') 100) =
     Inl (PyException ''ConnectionError'' ''filings provider unreachable'')"
  by (simp add: DataCollectionAgent_execute_def failing_fetchers_def data_task_def
        dict_get_def dict_get_default_def)

lemma task_ids:
  "task_id (fundamental_task ''000001'' d) = ''fundamental_000001''"
  "task_id (technical_task ''000001'' d) = ''technical_000001''"
  "task_id (sentiment_task ''000001'' d) = ''sentiment_000001''"
  "task_id (risk_task ''000001'' ars up) = ''risk_000001''"
  "task_id (strategy_task ''000001'' results rr up) = ''strategy_000001''"
  by (simp_all add: fundamental_task_def technical_task_def sentiment_task_def risk_task_def
        strategy_task_def)

lemma handed_reads:
  "handed_results (risk_task sc ars up) = map PObj ars"
  "handed_profile (risk_task sc ars up) = up"
  "handed_results (strategy_task sc results rr up) = results"
  "handed_risk_data (strategy_task sc results rr up) = data rr"
  by (simp_all add: handed_results_def handed_profile_def handed_risk_data_def risk_task_def
        strategy_task_def dict_get_def)

lemma sample_agents_return:
  "data_collector sample_agents (data_task ''000001'') = Inr sample_data_result"
  "fundamental sample_agents (fundamental_task ''000001'' d) =
     Inr (AgentResult ''fundamental_000001'' True [(''score'', PNum 80)] None 0)"
  "technical sample_agents (technical_task ''000001'' d) =
     Inr (AgentResult ''technical_000001'' True [(''score'', PNum 60)] None 0)"
  "sentiment sample_agents (sentiment_task ''000001'' d) =
     Inr (AgentResult ''sentiment_000001'' True [(''score'', PNum 70)] None 0)"
  "risk sample_agents (risk_task ''000001'' ars up) =
     (Inr (AgentResult ''risk_000001'' True [(''risk_level'', PStr ''medium'')] None 0),
      map PObj ars, up)"
  "strategy sample_agents (strategy_task ''000001'' results rr up) =
     (Inr (AgentResult ''strategy_000001'' True
            [(''action'', PStr ''buy''), (''confidence'', PNum 75),
             (''target_price'', PNum 15), (''stop_loss'', PNum 11)] None 0),
      results, data rr)"
  by (simp_all add: sample_agents_def sample_data_collected task_ids handed_reads)


lemma sample_run:
  "snd (analyze_stock sample_agents rank now ''000001'' sample_profile) =
     Inr [(''stock_code'', PStr ''000001''),
          (''analysis'', PDict [(''fundamental'', PDict [(''score'', PNum 80)]),
                                (''technical'', PDict [(''score'', PNum 60)]),
                                (''sentiment'', PDict [(''score'', PNum 70)])]),
          (''risk_assessment'', PDict [(''risk_level'', PStr ''medium'')]),
          (''investment_strategy'',
             PDict [(''action'', PStr ''buy''), (''confidence'', PNum 75),
                    (''target_price'', PNum 15), (''stop_loss'', PNum 11)]),
          (''timestamp'', PStr now)]"
proof -
  have "snd (analyze_stock sample_agents rank now ''000001'' sample_profile) =
          final_record ''000001''
            (map PObj [AgentResult ''fundamental_000001'' True [(''score'', PNum 80)] None 0,
                       AgentResult ''technical_000001'' True [(''score'', PNum 60)] None 0,
                       AgentResult ''sentiment_000001'' True [(''score'', PNum 70)] None 0])
            (data (AgentResult ''risk_000001'' True [(''risk_level'', PStr ''medium'')] None 0))
            (AgentResult ''strategy_000001'' True
              [(''action'', PStr ''buy''), (''confidence'', PNum 75),
               (''target_price'', PNum 15), (''stop_loss'', PNum 11)] None 0) now"
    by (rule run_all_return(1)[where d = sample_data_result]) (rule sample_agents_return)+
  then show ?thesis by (simp add: final_record_def result_data_at_def)
qed

lemma sentiment_flagged_agents_return:
  "data_collector sentiment_flagged_agents (data_task ''000001'') = Inr sample_data_result"
  "fundamental sentiment_flagged_agents (fundamental_task ''000001'' d) =
     Inr (AgentResult ''fundamental_000001'' True [(''score'', PNum 80)] None 0)"
  "technical sentiment_flagged_agents (technical_task ''000001'' d) =
     Inr (AgentResult ''technical_000001'' True [(''score'', PNum 60)] None 0)"
  "sentiment sentiment_flagged_agents (sentiment_task ''000001'' d) =
     Inr (AgentResult ''sentiment_000001'' False [] (Some ''news feed timed out'') 0)"
  "risk sentiment_flagged_agents (risk_task ''000001'' ars up) =
     (Inr (AgentResult ''risk_000001'' True [(''risk_level'', PStr ''medium'')] None 0),
      map PObj ars, up)"
  "strategy sentiment_flagged_agents (strategy_task ''000001'' results rr up) =
     (Inr (AgentResult ''strategy_000001'' True
            [(''action'', PStr ''buy''), (''confidence'', PNum 75),
             (''target_price'', PNum 15), (''stop_loss'', PNum 11)] None 0),
      results, data rr)"
  by (simp_all add: sentiment_flagged_agents_def sample_agents_return task_ids)

lemma sentiment_flagged_run:
  "snd (analyze_stock sentiment_flagged_agents reverse_rank sample_now ''000001'' sample_profile) =
     Inr [(''stock_code'', PStr ''000001''),
          (''analysis'', PDict [(''fundamental'', PDict [(''score'', PNum 80)]),
                                (''technical'', PDict [(''score'', PNum 60)]),
                                (''sentiment'', PDict [])]),
          (''risk_assessment'', PDict [(''risk_level'', PStr ''medium'')]),
          (''investment_strategy'',
             PDict [(''action'', PStr ''buy''), (''confidence'', PNum 75),
                    (''target_price'', PNum 15), (''stop_loss'', PNum 11)]),
          (''timestamp'', PStr sample_now)]"
proof -
  have "snd (analyze_stock sentiment_flagged_agents reverse_rank sample_now ''000001''
               sample_profile) =
          final_record ''000001''
            (map PObj [AgentResult ''fundamental_000001'' True [(''score'', PNum 80)] None 0,
                       AgentResult ''technical_000001'' True [(''score'', PNum 60)] None 0,
                       AgentResult ''sentiment_000001'' False [] (Some ''news feed timed out'') 0])
            (data (AgentResult ''risk_000001'' True [(''risk_level'', PStr ''medium'')] None 0))
            (AgentResult ''strategy_000001'' True
              [(''action'', PStr ''buy''), (''confidence'', PNum 75),
               (''target_price'', PNum 15), (''stop_loss'', PNum 11)] None 0) sample_now"
    by (rule run_all_return(1)[where d = sample_data_result])
       (rule sentiment_flagged_agents_return)+
  then show ?thesis by (simp add: final_record_def result_data_at_def)
qed


section \<open>Properties of AnalysisOrchestrator.analyze_stock\<close>

text \<open>
  Claim C4. In every run, whatever the agents do and in whatever order the gathered
  coroutines settle: no analysis task (fundamental, technical, sentiment) is dispatched
  before the data collection task has settled; the risk assessment task is not dispatched
  before each of the three analyses has settled; and the strategy task is not dispatched
  before the risk assessment task has settled.
\<close>

theorem stage_order:
  "precedes (is_settle_of ''data_collection'') (is_dispatch_of ''fundamental_analysis'')
     (fst (analyze_stock A rank now sc up))
 \<and> precedes (is_settle_of ''data_collection'') (is_dispatch_of ''technical_analysis'')
     (fst (analyze_stock A rank now sc up))
 \<and> precedes (is_settle_of ''data_collection'') (is_dispatch_of ''sentiment_analysis'')
     (fst (analyze_stock A rank now sc up))
 \<and> precedes (is_settle_of ''fundamental_analysis'') (is_dispatch_of ''risk_assessment'')
     (fst (analyze_stock A rank now sc up))
 \<and> precedes (is_settle_of ''technical_analysis'') (is_dispatch_of ''risk_assessment'')
     (fst (analyze_stock A rank now sc up))
 \<and> precedes (is_settle_of ''sentiment_analysis'') (is_dispatch_of ''risk_assessment'')
     (fst (analyze_stock A rank now sc up))
 \<and> precedes (is_settle_of ''risk_assessment'') (is_dispatch_of ''strategy_generation'')
     (fst (analyze_stock A rank now sc up))"
  by (intro conjI data_before_analysis analysis_before_risk risk_before_strategy) simp_all

theorem stage_order_witness:
  "precedes (is_settle_of ''risk_assessment'') (is_dispatch_of ''strategy_generation'')
     (fst (analyze_stock sample_agents reverse_rank sample_now ''000001'' sample_profile))
   \<and> precedes (is_settle_of ''sentiment_analysis'') (is_dispatch_of ''risk_assessment'')
     (fst (analyze_stock sample_agents reverse_rank sample_now ''000001'' sample_profile))
   \<and> precedes (is_settle_of ''data_collection'') (is_dispatch_of ''fundamental_analysis'')
     (fst (analyze_stock sample_agents reverse_rank sample_now ''000001'' sample_profile))"
  using stage_order [of sample_agents reverse_rank sample_now "''000001''" sample_profile]
  by blast

text \<open>
  Claim C1. The data collector of the orchestrator is \<^verbatim>\<open>DataCollectionAgent\<close>. In every
  run in which its task fails, on whatever data sources and at whatever clock, the failure
  is an exception, the run fails with it (\<^verbatim>\<open>analyze_stock\<close> raises that exception; this
  is the failed end of a run, the code keeps no status field), and the data collection task
  is the only task that was dispatched: no task of any other kind.
\<close>

theorem data_collection_failure_ends_run:
  assumes "data_collector A (data_task sc) = fst (DataCollectionAgent_execute F (data_task sc) c)"
      and "task_failed (data_collector A (data_task sc))"
  shows "\<exists>e. data_collector A (data_task sc) = Inl e
           \<and> snd (analyze_stock A rank now sc up) = Inl e
           \<and> fst (analyze_stock A rank now sc up)
               = [Dispatched (data_task sc), Settled (data_task sc)]
           \<and> dispatched_types (fst (analyze_stock A rank now sc up)) = [''data_collection'']"
proof (cases "data_collector A (data_task sc)")
  case (Inl e)
  from run_data_raises[OF this, of rank now up] Inl show ?thesis
    by (simp add: data_task_def)
next
  case (Inr r)
  with assms(1) obtain c' where "DataCollectionAgent_execute F (data_task sc) c = (Inr r, c')"
    by (cases "DataCollectionAgent_execute F (data_task sc) c") simp
  from execute_result_fields[OF this] have "success r" by (metis AgentResult.sel(2))
  with Inr assms(2) show ?thesis by simp
qed

theorem data_collection_failure_ends_run_witness:
  "snd (analyze_stock data_raises_agents reverse_rank sample_now ''000001'' sample_profile) =
      Inl (PyException ''ConnectionError'' ''filings provider unreachable'')
   \<and> dispatched_types
        (fst (analyze_stock data_raises_agents reverse_rank sample_now ''000001'' sample_profile)) =
      [''data_collection'']"
proof -
  have wired: "data_collector data_raises_agents (data_task ''000001'') =
                 fst (DataCollectionAgent_execute failing_fetchers (data_task ''000001'') 100)"
    by (simp add: data_raises_agents_def)
  have raised: "data_collector data_raises_agents (data_task ''000001'') =
                  Inl (PyException ''ConnectionError'' ''filings provider unreachable'')"
    by (simp add: data_raises_agents_def failing_data_collected)
  then have failed: "task_failed (data_collector data_raises_agents (data_task ''000001''))"
    by simp
  from data_collection_failure_ends_run
         [OF wired failed, of reverse_rank sample_now sample_profile] raised
  show ?thesis by auto
qed

text \<open>
  Claim C2, as the code has it, for every run in which the data collection agent returns.
  When the three analysis agents all return, the risk assessment task is dispatched, and
  its input holds all three results in the order fundamental, technical, sentiment,
  whatever their \<^verbatim>\<open>success\<close> flags are. When one of the three raises, and so also when
  all three do, the run is aborted: \<^verbatim>\<open>analyze_stock\<close> raises the exception of one of
  them, the risk assessment task is never dispatched and no record is returned.
\<close>

theorem analysis_failure_policy:
  assumes "data_collector A (data_task sc) = Inr d"
  shows "(fundamental A (fundamental_task sc d) = Inr rf
          \<and> technical A (technical_task sc d) = Inr rt
          \<and> sentiment A (sentiment_task sc d) = Inr rs
          \<longrightarrow> Dispatched (risk_task sc [rf, rt, rs] up)
                 \<in> set (fst (analyze_stock A rank now sc up)))
       \<and> (isl (fundamental A (fundamental_task sc d))
          \<or> isl (technical A (technical_task sc d))
          \<or> isl (sentiment A (sentiment_task sc d))
          \<longrightarrow> (\<exists>e. snd (analyze_stock A rank now sc up) = Inl e
                   \<and> (fundamental A (fundamental_task sc d) = Inl e
                      \<or> technical A (technical_task sc d) = Inl e
                      \<or> sentiment A (sentiment_task sc d) = Inl e))
              \<and> returned_record (snd (analyze_stock A rank now sc up)) = PNone
              \<and> ''risk_assessment'' \<notin> set (dispatched_types (fst (analyze_stock A rank now sc up))))"
proof (intro conjI impI)
  assume "fundamental A (fundamental_task sc d) = Inr rf
          \<and> technical A (technical_task sc d) = Inr rt
          \<and> sentiment A (sentiment_task sc d) = Inr rs"
  then show "Dispatched (risk_task sc [rf, rt, rs] up) \<in> set (fst (analyze_stock A rank now sc up))"
    using run_risk_dispatched[OF assms] by blast
next
  assume r: "isl (fundamental A (fundamental_task sc d))
          \<or> isl (technical A (technical_task sc d))
          \<or> isl (sentiment A (sentiment_task sc d))"
  from run_analysis_aborts(1)[OF assms r]
  show ex: "\<exists>e. snd (analyze_stock A rank now sc up) = Inl e
           \<and> (fundamental A (fundamental_task sc d) = Inl e
              \<or> technical A (technical_task sc d) = Inl e
              \<or> sentiment A (sentiment_task sc d) = Inl e)" .
  then show "returned_record (snd (analyze_stock A rank now sc up)) = PNone" by auto
  from run_analysis_aborts(2)[OF assms r, of rank now up]
  show "''risk_assessment'' \<notin> set (dispatched_types (fst (analyze_stock A rank now sc up)))"
    by simp
qed

theorem analysis_failure_policy_witness:
  "Dispatched (risk_task ''000001''
       [AgentResult ''fundamental_000001'' True [(''score'', PNum 80)] None 0,
        AgentResult ''technical_000001'' True [(''score'', PNum 60)] None 0,
        AgentResult ''sentiment_000001'' False [] (Some ''news feed timed out'') 0]
       sample_profile)
     \<in> set (fst (analyze_stock sentiment_flagged_agents reverse_rank sample_now ''000001''
                  sample_profile))
   \<and> isl (snd (analyze_stock fundamental_raises_agents reverse_rank sample_now ''000001''
                  sample_profile))
   \<and> ''risk_assessment'' \<notin> set (dispatched_types
         (fst (analyze_stock fundamental_raises_agents reverse_rank sample_now ''000001''
                  sample_profile)))"
proof -
  note d1 = sentiment_flagged_agents_return(1)
  have a1: "fundamental sentiment_flagged_agents (fundamental_task ''000001'' sample_data_result) =
              Inr (AgentResult ''fundamental_000001'' True [(''score'', PNum 80)] None 0)
          \<and> technical sentiment_flagged_agents (technical_task ''000001'' sample_data_result) =
              Inr (AgentResult ''technical_000001'' True [(''score'', PNum 60)] None 0)
          \<and> sentiment sentiment_flagged_agents (sentiment_task ''000001'' sample_data_result) =
              Inr (AgentResult ''sentiment_000001'' False [] (Some ''news feed timed out'') 0)"
    by (simp add: sentiment_flagged_agents_return)
  have d2: "data_collector fundamental_raises_agents (data_task ''000001'') = Inr sample_data_result"
    by (simp add: fundamental_raises_agents_def sample_agents_return)
  have a2: "isl (fundamental fundamental_raises_agents (fundamental_task ''000001'' sample_data_result))"
    by (simp add: fundamental_raises_agents_def)
  from analysis_failure_policy [OF d1, of _ _ _ sample_profile reverse_rank sample_now] a1
  have one: "Dispatched (risk_task ''000001''
       [AgentResult ''fundamental_000001'' True [(''score'', PNum 80)] None 0,
        AgentResult ''technical_000001'' True [(''score'', PNum 60)] None 0,
        AgentResult ''sentiment_000001'' False [] (Some ''news feed timed out'') 0]
       sample_profile)
     \<in> set (fst (analyze_stock sentiment_flagged_agents reverse_rank sample_now ''000001''
                  sample_profile))" by blast
  from analysis_failure_policy [OF d2, of _ _ _ sample_profile reverse_rank sample_now] a2
  have two: "(\<exists>e. snd (analyze_stock fundamental_raises_agents reverse_rank sample_now ''000001''
                  sample_profile) = Inl e)
     \<and> ''risk_assessment'' \<notin> set (dispatched_types
         (fst (analyze_stock fundamental_raises_agents reverse_rank sample_now ''000001''
                  sample_profile)))" by blast
  then have "isl (snd (analyze_stock fundamental_raises_agents reverse_rank sample_now ''000001''
                  sample_profile))" by auto
  with one two show ?thesis by blast
qed

text \<open>
  Claim C2, as the specification states it, fails twice. When the fundamental agent raises
  and the technical agent succeeds, the run is aborted after the three analyses were
  dispatched: the risk assessment does not run. When all three analyses fail, by raising,
  the run is aborted in the same way and returns no record: there is no action
  \<^verbatim>\<open>hold\<close> and no confidence.
\<close>

theorem analysis_failure_policy_counterexample:
  "task_failed (fundamental fundamental_raises_agents
                  (fundamental_task ''000001'' sample_data_result))
   \<and> \<not> task_failed (technical fundamental_raises_agents
                  (technical_task ''000001'' sample_data_result))
   \<and> isl (snd (analyze_stock fundamental_raises_agents reverse_rank sample_now ''000001''
                  sample_profile))
   \<and> dispatched_types (fst (analyze_stock fundamental_raises_agents reverse_rank sample_now
                  ''000001'' sample_profile)) =
       [''data_collection'', ''fundamental_analysis'', ''technical_analysis'',
        ''sentiment_analysis'']
   \<and> task_failed (fundamental analyses_raise_agents
                  (fundamental_task ''000001'' sample_data_result))
   \<and> task_failed (technical analyses_raise_agents
                  (technical_task ''000001'' sample_data_result))
   \<and> task_failed (sentiment analyses_raise_agents
                  (sentiment_task ''000001'' sample_data_result))
   \<and> isl (snd (analyze_stock analyses_raise_agents reverse_rank sample_now ''000001''
                  sample_profile))
   \<and> field ''action'' (field ''investment_strategy'' (returned_record
         (snd (analyze_stock analyses_raise_agents reverse_rank sample_now ''000001''
                  sample_profile)))) = PNone"
proof -
  have d1: "data_collector fundamental_raises_agents (data_task ''000001'') = Inr sample_data_result"
    by (simp add: fundamental_raises_agents_def sample_agents_return)
  have a1: "isl (fundamental fundamental_raises_agents (fundamental_task ''000001'' sample_data_result))
            \<or> isl (technical fundamental_raises_agents (technical_task ''000001'' sample_data_result))
            \<or> isl (sentiment fundamental_raises_agents (sentiment_task ''000001'' sample_data_result))"
    by (simp add: fundamental_raises_agents_def)
  note aborted1 = run_analysis_aborts[OF d1 a1, of reverse_rank sample_now sample_profile]
  have flags1: "task_failed (fundamental fundamental_raises_agents
                  (fundamental_task ''000001'' sample_data_result))"
     "\<not> task_failed (technical fundamental_raises_agents
                  (technical_task ''000001'' sample_data_result))"
    by (simp_all add: fundamental_raises_agents_def sample_agents_return)
  have d2: "data_collector analyses_raise_agents (data_task ''000001'') = Inr sample_data_result"
    by (simp add: analyses_raise_agents_def sample_agents_return)
  have flags2: "task_failed (fundamental analyses_raise_agents
                  (fundamental_task ''000001'' sample_data_result))"
     "task_failed (technical analyses_raise_agents
                  (technical_task ''000001'' sample_data_result))"
     "task_failed (sentiment analyses_raise_agents
                  (sentiment_task ''000001'' sample_data_result))"
    by (simp_all add: analyses_raise_agents_def)
  have a2: "isl (fundamental analyses_raise_agents (fundamental_task ''000001'' sample_data_result))
            \<or> isl (technical analyses_raise_agents (technical_task ''000001'' sample_data_result))
            \<or> isl (sentiment analyses_raise_agents (sentiment_task ''000001'' sample_data_result))"
    by (simp add: analyses_raise_agents_def)
  note aborted2 = run_analysis_aborts[OF d2 a2, of reverse_rank sample_now sample_profile]
  from aborted1(1) have r1: "isl (snd (analyze_stock fundamental_raises_agents reverse_rank
                  sample_now ''000001'' sample_profile))" by auto
  from aborted2(1) have r2: "isl (snd (analyze_stock analyses_raise_agents reverse_rank
                  sample_now ''000001'' sample_profile))"
    and r3: "field ''action'' (field ''investment_strategy'' (returned_record
         (snd (analyze_stock analyses_raise_agents reverse_rank sample_now ''000001''
                  sample_profile)))) = PNone" by auto
  from flags1 r1 aborted1(2) flags2 r2 r3 show ?thesis by blast
qed

text \<open>
  Claim C5, as the code has it. \<^verbatim>\<open>analyze_stock\<close> receives the stock code of a request
  and nothing of its \<^verbatim>\<open>analysis_types\<close>. In every run in which the data collection
  agent returns, the first four tasks dispatched are data collection and the fundamental,
  technical and sentiment analyses; and a risk assessment task, when one is dispatched,
  is built from the results of all three.
\<close>

theorem request_kinds_ignored:
  assumes "data_collector A (data_task (stock_code req)) = Inr d"
  shows "take 4 (dispatched_types (fst (analyze_stock A rank now (stock_code req) up))) =
           [''data_collection'', ''fundamental_analysis'', ''technical_analysis'',
            ''sentiment_analysis'']
       \<and> (\<forall>e \<in> set (fst (analyze_stock A rank now (stock_code req) up)).
            is_dispatch_of ''risk_assessment'' e \<longrightarrow>
              (\<exists>rf rt rs. fundamental A (fundamental_task (stock_code req) d) = Inr rf
                 \<and> technical A (technical_task (stock_code req) d) = Inr rt
                 \<and> sentiment A (sentiment_task (stock_code req) d) = Inr rs
                 \<and> e = Dispatched (risk_task (stock_code req) [rf, rt, rs] up)))"
  using run_dispatch_prefix[OF assms] run_risk_dispatch[OF assms] by blast

theorem request_kinds_ignored_witness:
  "take 4 (dispatched_types (fst (analyze_stock sample_agents reverse_rank sample_now
        (stock_code fundamental_only_request) sample_profile))) =
     [''data_collection'', ''fundamental_analysis'', ''technical_analysis'',
      ''sentiment_analysis'']
   \<and> Dispatched (risk_task ''000001''
       [AgentResult ''fundamental_000001'' True [(''score'', PNum 80)] None 0,
        AgentResult ''technical_000001'' True [(''score'', PNum 60)] None 0,
        AgentResult ''sentiment_000001'' True [(''score'', PNum 70)] None 0]
       sample_profile)
     \<in> set (fst (analyze_stock sample_agents reverse_rank sample_now
                  (stock_code fundamental_only_request) sample_profile))"
proof -
  have sc: "stock_code fundamental_only_request = ''000001''"
    by (simp add: fundamental_only_request_def)
  have d: "data_collector sample_agents (data_task (stock_code fundamental_only_request)) =
             Inr sample_data_result"
    by (simp add: sc sample_agents_return)
  have "Dispatched (risk_task ''000001''
       [AgentResult ''fundamental_000001'' True [(''score'', PNum 80)] None 0,
        AgentResult ''technical_000001'' True [(''score'', PNum 60)] None 0,
        AgentResult ''sentiment_000001'' True [(''score'', PNum 70)] None 0]
       sample_profile)
     \<in> set (fst (analyze_stock sample_agents reverse_rank sample_now ''000001'' sample_profile))"
    by (rule run_risk_dispatched[where d = sample_data_result]) (simp_all add: sample_agents_return)
  with request_kinds_ignored [OF d, of reverse_rank sample_now sample_profile]
  show ?thesis by (simp add: sc)
qed

text \<open>
  Claim C5, as the specification states it, fails: the request asks for the fundamental
  analysis only, and the run for its stock code dispatches all six tasks.
\<close>

theorem requested_subset_counterexample:
  "analysis_types fundamental_only_request = [''fundamental'']
   \<and> dispatched_types (fst (analyze_stock sample_agents reverse_rank sample_now
        (stock_code fundamental_only_request) sample_profile)) =
     [''data_collection'', ''fundamental_analysis'', ''technical_analysis'',
      ''sentiment_analysis'', ''risk_assessment'', ''strategy_generation'']"
proof -
  have "dispatched_types (fst (analyze_stock sample_agents reverse_rank sample_now
        ''000001'' sample_profile)) =
     [''data_collection'', ''fundamental_analysis'', ''technical_analysis'',
      ''sentiment_analysis'', ''risk_assessment'', ''strategy_generation'']"
    by (rule run_all_return(2)[where d = sample_data_result]) (rule sample_agents_return)+
  then show ?thesis by (simp add: fundamental_only_request_def)
qed

text \<open>
  Claim C6, as the code has it. In every run that returns, the strategy task was dispatched,
  the strategy agent returned a result for it, and the \<^verbatim>\<open>investment_strategy\<close> entry of
  the returned record is the data of that result, verbatim: action, target price, stop-loss
  and confidence are the strategy agent's values. No penalty is applied to the confidence.
\<close>

theorem strategy_output_verbatim:
  assumes "snd (analyze_stock A rank now sc up) = Inr rec"
  shows "\<exists>st sr. Dispatched st \<in> set (fst (analyze_stock A rank now sc up))
           \<and> task_type st = ''strategy_generation''
           \<and> fst (strategy A st) = Inr sr
           \<and> dict_get rec ''investment_strategy'' = PDict (data sr)
           \<and> field ''action'' (dict_get rec ''investment_strategy'') = dict_get (data sr) ''action''
           \<and> field ''target_price'' (dict_get rec ''investment_strategy'')
               = dict_get (data sr) ''target_price''
           \<and> field ''stop_loss'' (dict_get rec ''investment_strategy'')
               = dict_get (data sr) ''stop_loss''
           \<and> field ''confidence'' (dict_get rec ''investment_strategy'')
               = dict_get (data sr) ''confidence''"
proof -
  from run_returns[OF assms] obtain d rf rt rs rr results1 profile1 sr results2 risk_data2 where
    s: "strategy A (strategy_task sc results1 rr profile1) = (Inr sr, results2, risk_data2)"
    and r: "final_record sc results2 risk_data2 sr now = Inr rec"
    and l: "fst (analyze_stock A rank now sc up) =
             [Dispatched (data_task sc), Settled (data_task sc)]
              @ fst (gather rank (analysis_tasks A sc d))
              @ [Dispatched (risk_task sc [rf, rt, rs] up), Settled (risk_task sc [rf, rt, rs] up),
                 Dispatched (strategy_task sc results1 rr profile1),
                 Settled (strategy_task sc results1 rr profile1)]"
    by blast
  note inv = final_record_strategy[OF r]
  have "Dispatched (strategy_task sc results1 rr profile1)
          \<in> set (fst (analyze_stock A rank now sc up))"
    by (simp add: l)
  moreover have "task_type (strategy_task sc results1 rr profile1) = ''strategy_generation''"
    by (simp add: strategy_task_def)
  moreover from s have "fst (strategy A (strategy_task sc results1 rr profile1)) = Inr sr"
    by simp
  ultimately show ?thesis using inv
    by (intro exI[of _ "strategy_task sc results1 rr profile1"] exI[of _ sr]) simp
qed

theorem strategy_output_verbatim_witness:
  "\<exists>st sr. fst (strategy sentiment_flagged_agents st) = Inr sr
     \<and> task_type st = ''strategy_generation''
     \<and> field ''confidence'' (field ''investment_strategy'' (returned_record
         (snd (analyze_stock sentiment_flagged_agents reverse_rank sample_now ''000001''
                  sample_profile)))) = dict_get (data sr) ''confidence''"
proof -
  from strategy_output_verbatim [OF sentiment_flagged_run] obtain st sr where
    "fst (strategy sentiment_flagged_agents st) = Inr sr" "task_type st = ''strategy_generation''"
    "field ''confidence'' (dict_get
       [(''stock_code'', PStr ''000001''),
          (''analysis'', PDict [(''fundamental'', PDict [(''score'', PNum 80)]),
                                (''technical'', PDict [(''score'', PNum 60)]),
                                (''sentiment'', PDict [])]),
          (''risk_assessment'', PDict [(''risk_level'', PStr ''medium'')]),
          (''investment_strategy'',
             PDict [(''action'', PStr ''buy''), (''confidence'', PNum 75),
                    (''target_price'', PNum 15), (''stop_loss'', PNum 11)]),
          (''timestamp'', PStr sample_now)] ''investment_strategy'')
      = dict_get (data sr) ''confidence''"
    by blast
  then show ?thesis
    by (intro exI[of _ st] exI[of _ sr]) (simp add: sentiment_flagged_run dict_get_def)
qed

text \<open>
  Claim C6, as the specification states it, fails: the sentiment analysis returns
  \<^verbatim>\<open>success = false\<close>, the strategy agent reports confidence 75, and the returned
  record has confidence 75, not 75 times 0.8.
\<close>

theorem confidence_penalty_counterexample:
  "task_failed (sentiment sentiment_flagged_agents (sentiment_task ''000001'' sample_data_result))
   \<and> fst (strategy sentiment_flagged_agents
        (strategy_task ''000001''
           [PObj (AgentResult ''fundamental_000001'' True [(''score'', PNum 80)] None 0),
            PObj (AgentResult ''technical_000001'' True [(''score'', PNum 60)] None 0),
            PObj (AgentResult ''sentiment_000001'' False [] (Some ''news feed timed out'') 0)]
           (AgentResult ''risk_000001'' True [(''risk_level'', PStr ''medium'')] None 0)
           sample_profile)) =
       Inr (AgentResult ''strategy_000001'' True
            [(''action'', PStr ''buy''), (''confidence'', PNum 75),
             (''target_price'', PNum 15), (''stop_loss'', PNum 11)] None 0)
   \<and> field ''confidence'' (field ''investment_strategy'' (returned_record
         (snd (analyze_stock sentiment_flagged_agents reverse_rank sample_now ''000001''
                  sample_profile)))) = PNum 75
   \<and> PNum 75 \<noteq> PNum (75 * (8 / 10))"
proof -
  have "task_failed (sentiment sentiment_flagged_agents
                       (sentiment_task ''000001'' sample_data_result))"
    by (simp add: sentiment_flagged_agents_return)
  moreover have "fst (strategy sentiment_flagged_agents
        (strategy_task ''000001''
           [PObj (AgentResult ''fundamental_000001'' True [(''score'', PNum 80)] None 0),
            PObj (AgentResult ''technical_000001'' True [(''score'', PNum 60)] None 0),
            PObj (AgentResult ''sentiment_000001'' False [] (Some ''news feed timed out'') 0)]
           (AgentResult ''risk_000001'' True [(''risk_level'', PStr ''medium'')] None 0)
           sample_profile)) =
       Inr (AgentResult ''strategy_000001'' True
            [(''action'', PStr ''buy''), (''confidence'', PNum 75),
             (''target_price'', PNum 15), (''stop_loss'', PNum 11)] None 0)"
    by (simp add: sentiment_flagged_agents_return)
  moreover have "field ''confidence'' (field ''investment_strategy'' (returned_record
         (snd (analyze_stock sentiment_flagged_agents reverse_rank sample_now ''000001''
                  sample_profile)))) = PNum 75"
    by (simp add: sentiment_flagged_run dict_get_def)
  moreover have "PNum 75 \<noteq> PNum (75 * (8 / 10))"
    by simp
  ultimately show ?thesis by blast
qed

text \<open>
  Claim C7. The confidence and the action of the returned record depend on nothing but the
  task results: two finalizations over the same results agree on both, whatever the clock
  reads (and whatever the stock code is); and two runs of the same agents on the same input
  that both return agree on both, whatever the order in which the gathered coroutines
  settle and whatever the clock reads.
\<close>

theorem finalization_deterministic:
  "(final_record sc results risk_data sr now = Inr rec
      \<and> final_record sc' results risk_data sr now' = Inr rec'
      \<longrightarrow> field ''confidence'' (dict_get rec ''investment_strategy'')
            = field ''confidence'' (dict_get rec' ''investment_strategy'')
        \<and> field ''action'' (dict_get rec ''investment_strategy'')
            = field ''action'' (dict_get rec' ''investment_strategy''))
   \<and> (snd (analyze_stock A rank now sc up) = Inr rec
        \<and> snd (analyze_stock A rank' now' sc up) = Inr rec'
      \<longrightarrow> field ''confidence'' (dict_get rec ''investment_strategy'')
            = field ''confidence'' (dict_get rec' ''investment_strategy'')
        \<and> field ''action'' (dict_get rec ''investment_strategy'')
            = field ''action'' (dict_get rec' ''investment_strategy''))"
proof (intro conjI impI)
  assume "final_record sc results risk_data sr now = Inr rec
      \<and> final_record sc' results risk_data sr now' = Inr rec'"
  then have "dict_get rec ''investment_strategy'' = PDict (data sr)"
    and "dict_get rec' ''investment_strategy'' = PDict (data sr)"
    by (blast dest: final_record_strategy)+
  then show "field ''confidence'' (dict_get rec ''investment_strategy'')
            = field ''confidence'' (dict_get rec' ''investment_strategy'')"
    and "field ''action'' (dict_get rec ''investment_strategy'')
            = field ''action'' (dict_get rec' ''investment_strategy'')"
    by simp_all
next
  assume runs: "snd (analyze_stock A rank now sc up) = Inr rec
        \<and> snd (analyze_stock A rank' now' sc up) = Inr rec'"
  from runs run_returns[of A rank now sc up rec]
  obtain d rf rt rs rr results1 profile1 sr results2 risk_data2 where
    one: "data_collector A (data_task sc) = Inr d"
         "fundamental A (fundamental_task sc d) = Inr rf"
         "technical A (technical_task sc d) = Inr rt"
         "sentiment A (sentiment_task sc d) = Inr rs"
         "risk A (risk_task sc [rf, rt, rs] up) = (Inr rr, results1, profile1)"
         "strategy A (strategy_task sc results1 rr profile1) = (Inr sr, results2, risk_data2)"
         "final_record sc results2 risk_data2 sr now = Inr rec"
    by blast
  from runs run_returns[of A rank' now' sc up rec']
  obtain d' rf' rt' rs' rr' results1' profile1' sr' results2' risk_data2' where
    two: "data_collector A (data_task sc) = Inr d'"
         "fundamental A (fundamental_task sc d') = Inr rf'"
         "technical A (technical_task sc d') = Inr rt'"
         "sentiment A (sentiment_task sc d') = Inr rs'"
         "risk A (risk_task sc [rf', rt', rs'] up) = (Inr rr', results1', profile1')"
         "strategy A (strategy_task sc results1' rr' profile1') = (Inr sr', results2', risk_data2')"
         "final_record sc results2' risk_data2' sr' now' = Inr rec'"
    by blast
  from one(1) two(1) have "d' = d" by simp
  with one(2-4) two(2-4) have "rf' = rf" "rt' = rt" "rs' = rs" by simp_all
  with one(5) two(5) have "rr' = rr" "results1' = results1" "profile1' = profile1" by simp_all
  with one(6) two(6) have "sr' = sr" by simp
  with one(7) two(7) have "dict_get rec ''investment_strategy'' = PDict (data sr)"
    and "dict_get rec' ''investment_strategy'' = PDict (data sr)"
    by (blast dest: final_record_strategy)+
  then show "field ''confidence'' (dict_get rec ''investment_strategy'')
            = field ''confidence'' (dict_get rec' ''investment_strategy'')"
    and "field ''action'' (dict_get rec ''investment_strategy'')
            = field ''action'' (dict_get rec' ''investment_strategy'')"
    by simp_all
qed

theorem finalization_deterministic_witness:
  "snd (analyze_stock sample_agents reverse_rank sample_now ''000001'' sample_profile)
     \<noteq> snd (analyze_stock sample_agents id later_now ''000001'' sample_profile)
   \<and> field ''confidence'' (field ''investment_strategy'' (returned_record
         (snd (analyze_stock sample_agents reverse_rank sample_now ''000001'' sample_profile))))
     = field ''confidence'' (field ''investment_strategy'' (returned_record
         (snd (analyze_stock sample_agents id later_now ''000001'' sample_profile))))
   \<and> field ''action'' (field ''investment_strategy'' (returned_record
         (snd (analyze_stock sample_agents reverse_rank sample_now ''000001'' sample_profile))))
     = field ''action'' (field ''investment_strategy'' (returned_record
         (snd (analyze_stock sample_agents id later_now ''000001'' sample_profile))))"
proof -
  note one = sample_run[of reverse_rank sample_now]
  note two = sample_run[of id later_now]
  from finalization_deterministic
    [where A = sample_agents and rank = reverse_rank and now = sample_now and rank' = id
       and now' = later_now and sc = "''000001''" and up = sample_profile, THEN conjunct2]
    one two
  have "field ''confidence'' (dict_get
          [(''stock_code'', PStr ''000001''),
          (''analysis'', PDict [(''fundamental'', PDict [(''score'', PNum 80)]),
                                (''technical'', PDict [(''score'', PNum 60)]),
                                (''sentiment'', PDict [(''score'', PNum 70)])]),
          (''risk_assessment'', PDict [(''risk_level'', PStr ''medium'')]),
          (''investment_strategy'',
             PDict [(''action'', PStr ''buy''), (''confidence'', PNum 75),
                    (''target_price'', PNum 15), (''stop_loss'', PNum 11)]),
          (''timestamp'', PStr sample_now)] ''investment_strategy'')
      = field ''confidence'' (dict_get
          [(''stock_code'', PStr ''000001''),
          (''analysis'', PDict [(''fundamental'', PDict [(''score'', PNum 80)]),
                                (''technical'', PDict [(''score'', PNum 60)]),
                                (''sentiment'', PDict [(''score'', PNum 70)])]),
          (''risk_assessment'', PDict [(''risk_level'', PStr ''medium'')]),
          (''investment_strategy'',
             PDict [(''action'', PStr ''buy''), (''confidence'', PNum 75),
                    (''target_price'', PNum 15), (''stop_loss'', PNum 11)]),
          (''timestamp'', PStr later_now)] ''investment_strategy'')"
    by blast
  moreover have "sample_now \<noteq> later_now" by (simp add: sample_now_def later_now_def)
  ultimately show ?thesis
    by (simp add: one two dict_get_def)
qed




end
